theory Spec2Isabelle
  imports Complex_Main "HOL-Library.Word"
begin

section \<open>The plot layout of Qwt (qwt\_plot\_layout.cpp)\<close>

text \<open>
  A shallow embedding of \<^verbatim>\<open>QwtPlotLayout\<close>. The C++ types are modelled as follows.
  \<^item> \<^verbatim>\<open>int\<close> and \<^verbatim>\<open>unsigned int\<close> are 32-bit words; \<open>sint\<close> reads a word as the
    signed value, arithmetic wraps around.
  \<^item> \<^verbatim>\<open>double\<close> (and Qt's \<^verbatim>\<open>qreal\<close>) is modelled by the real numbers: the values are
    compared, stored, added and subtracted as exact reals; rounding, infinities and NaN
    are not modelled.
  \<^item> An array indexed by \<^verbatim>\<open>QwtPlot::Axis\<close> is a function from the index; only the
    entries \<open>0 .. 3\<close> are ever read or written.
  \<^item> The private data \<^verbatim>\<open>m_data\<close> is a record that every member function takes and,
    when it mutates, returns.
\<close>

subsection \<open>Integers\<close>

type_synonym cint = "32 word"

definition slt :: "cint \<Rightarrow> cint \<Rightarrow> bool" where
  \<comment> \<open>\<^verbatim>\<open>a < b\<close> on \<^verbatim>\<open>int\<close>\<close>
  "slt a b \<longleftrightarrow> sint a < sint b"

definition qMin :: "cint \<Rightarrow> cint \<Rightarrow> cint" where
  \<comment> \<open>Qt: \<^verbatim>\<open>qMin(a, b) = (a < b) ? a : b\<close>\<close>
  "qMin a b = (if slt a b then a else b)"

definition qMax :: "cint \<Rightarrow> cint \<Rightarrow> cint" where
  \<comment> \<open>Qt: \<^verbatim>\<open>qMax(a, b) = (a < b) ? b : a\<close>\<close>
  "qMax a b = (if slt a b then b else a)"

definition toDouble :: "cint \<Rightarrow> real" where
  \<comment> \<open>the implicit conversion \<^verbatim>\<open>int\<close> to \<^verbatim>\<open>double\<close>\<close>
  "toDouble i = real_of_int (sint i)"

definition unsignedToDouble :: "cint \<Rightarrow> real" where
  \<comment> \<open>the implicit conversion \<^verbatim>\<open>unsigned int\<close> to \<^verbatim>\<open>double\<close>\<close>
  "unsignedToDouble u = real_of_int (uint u)"

definition toInt :: "real \<Rightarrow> cint" where
  \<comment> \<open>the conversion \<^verbatim>\<open>int( x )\<close> of a \<^verbatim>\<open>double\<close>: truncation towards zero (out of the
      range of \<^verbatim>\<open>int\<close> the C++ result is undefined; here it wraps)\<close>
  "toInt x = word_of_int (if 0 \<le> x then \<lfloor>x\<rfloor> else \<lceil>x\<rceil>)"

definition qwtFloor :: "real \<Rightarrow> cint" where
  \<comment> \<open>qwt\_math.h: \<^verbatim>\<open>int( std::floor( value ) )\<close>\<close>
  "qwtFloor x = word_of_int \<lfloor>x\<rfloor>"

definition qwtCeil :: "real \<Rightarrow> cint" where
  \<comment> \<open>qwt\_math.h: \<^verbatim>\<open>int( std::ceil( value ) )\<close>\<close>
  "qwtCeil x = word_of_int \<lceil>x\<rceil>"

subsection \<open>The enumerations of qwt\_plot.h and qwt\_plot\_layout.h\<close>

text \<open>
  \<^verbatim>\<open>enum Axis { yLeft, yRight, xBottom, xTop, axisCnt }\<close> and
  \<^verbatim>\<open>enum LegendPosition { LeftLegend, RightLegend, BottomLegend, TopLegend }\<close>.
  A C++ enumeration can hold any value of its underlying integer type, and the axis
  parameters are plain \<^verbatim>\<open>int\<close>, so both are integers here.
\<close>

definition yLeft :: int where "yLeft = 0"
definition yRight :: int where "yRight = 1"
definition xBottom :: int where "xBottom = 2"
definition xTop :: int where "xTop = 3"
definition axisCnt :: int where "axisCnt = 4"

definition LeftLegend :: int where "LeftLegend = 0"
definition RightLegend :: int where "RightLegend = 1"
definition BottomLegend :: int where "BottomLegend = 2"
definition TopLegend :: int where "TopLegend = 3"

lemmas axis_defs = yLeft_def yRight_def xBottom_def xTop_def axisCnt_def
lemmas legendPos_defs = LeftLegend_def RightLegend_def BottomLegend_def TopLegend_def

text \<open>The flags of \<^verbatim>\<open>QwtPlotLayout::Options\<close>; an option set is the set of flags that are on.\<close>

datatype Option = AlignScales | IgnoreScrollbars | IgnoreFrames | IgnoreLegend
  | IgnoreTitle | IgnoreFooter

type_synonym Options = "Option set"

definition axes :: "int list" where
  \<comment> \<open>the index sequence of \<^verbatim>\<open>for ( axis = 0; axis < QwtPlot::axisCnt; axis++ )\<close>\<close>
  "axes = [0, 1, 2, 3]"

subsection \<open>Qt's geometry classes\<close>

record QSize =
  wd :: cint
  ht :: cint

text \<open>
  \<^verbatim>\<open>QRectF\<close> stores the top left corner and the size. The right and bottom edges are
  computed; the edge setters keep the opposite edge where it is.
\<close>

record QRectF =
  xp :: real
  yp :: real
  w :: real
  h :: real

definition QRectF_null :: QRectF where
  \<comment> \<open>\<^verbatim>\<open>QRectF()\<close>, also the value of \<^verbatim>\<open>QRect()\<close> converted to a \<^verbatim>\<open>QRectF\<close>\<close>
  "QRectF_null = \<lparr>xp = 0, yp = 0, w = 0, h = 0\<rparr>"

definition left :: "QRectF \<Rightarrow> real" where "left r = xp r"
definition top' :: "QRectF \<Rightarrow> real" where "top' r = yp r"
definition right :: "QRectF \<Rightarrow> real" where "right r = xp r + w r"
definition bottom :: "QRectF \<Rightarrow> real" where "bottom r = yp r + h r"
definition width :: "QRectF \<Rightarrow> real" where "width r = w r"
definition height :: "QRectF \<Rightarrow> real" where "height r = h r"

definition isValid :: "QRectF \<Rightarrow> bool" where
  "isValid r \<longleftrightarrow> 0 < w r \<and> 0 < h r"

definition isEmpty :: "QRectF \<Rightarrow> bool" where
  "isEmpty r \<longleftrightarrow> w r \<le> 0 \<or> h r \<le> 0"

definition setLeft :: "real \<Rightarrow> QRectF \<Rightarrow> QRectF" where
  \<comment> \<open>\<^verbatim>\<open>diff = pos - xp; xp += diff; w -= diff\<close>\<close>
  "setLeft pos r = r\<lparr>xp := pos, w := w r - (pos - xp r)\<rparr>"

definition setTop :: "real \<Rightarrow> QRectF \<Rightarrow> QRectF" where
  "setTop pos r = r\<lparr>yp := pos, h := h r - (pos - yp r)\<rparr>"

definition setRight :: "real \<Rightarrow> QRectF \<Rightarrow> QRectF" where
  \<comment> \<open>\<^verbatim>\<open>w = pos - xp\<close>\<close>
  "setRight pos r = r\<lparr>w := pos - xp r\<rparr>"

definition setBottom :: "real \<Rightarrow> QRectF \<Rightarrow> QRectF" where
  "setBottom pos r = r\<lparr>h := pos - yp r\<rparr>"

definition setX :: "real \<Rightarrow> QRectF \<Rightarrow> QRectF" where
  \<comment> \<open>\<^verbatim>\<open>setX\<close> is \<^verbatim>\<open>setLeft\<close>\<close>
  "setX pos r = setLeft pos r"

definition setY :: "real \<Rightarrow> QRectF \<Rightarrow> QRectF" where
  "setY pos r = setTop pos r"

definition setWidth :: "real \<Rightarrow> QRectF \<Rightarrow> QRectF" where
  "setWidth v r = r\<lparr>w := v\<rparr>"

definition setHeight :: "real \<Rightarrow> QRectF \<Rightarrow> QRectF" where
  "setHeight v r = r\<lparr>h := v\<rparr>"

definition setRect :: "real \<Rightarrow> real \<Rightarrow> real \<Rightarrow> real \<Rightarrow> QRectF" where
  "setRect x y v u = \<lparr>xp = x, yp = y, w = v, h = u\<rparr>"

definition normalized :: "QRectF \<Rightarrow> QRectF" where
  \<comment> \<open>a negative width or height is flipped around its edge\<close>
  "normalized r =
     (let r1 = (if w r < 0 then r\<lparr>xp := xp r + w r, w := - w r\<rparr> else r)
      in if h r1 < 0 then r1\<lparr>yp := yp r1 + h r1, h := - h r1\<rparr> else r1)"

lemmas rect_defs = left_def top'_def right_def bottom_def width_def height_def
  setLeft_def setTop_def setRight_def setBottom_def setX_def setY_def
  setWidth_def setHeight_def setRect_def

subsection \<open>The widgets the layout reads\<close>

type_synonym QFont = string

record QwtText =
  text_isEmpty :: bool
  text_paintUsingTextFont :: bool
  text_font :: QFont
  text_metrics :: "QFont \<Rightarrow> real \<Rightarrow> real"

definition QwtText_null :: QwtText where
  \<comment> \<open>\<^verbatim>\<open>QwtText()\<close>: the empty text\<close>
  "QwtText_null = \<lparr>text_isEmpty = True, text_paintUsingTextFont = False,
     text_font = [], text_metrics = (\<lambda>_ _. 0)\<rparr>"

definition heightForWidth :: "QwtText \<Rightarrow> real \<Rightarrow> real" where
  \<comment> \<open>\<^verbatim>\<open>QwtText::heightForWidth( width )\<close>, measured with the text's font\<close>
  "heightForWidth t v = text_metrics t (text_font t) v"

definition setFont :: "QFont \<Rightarrow> QwtText \<Rightarrow> QwtText" where
  "setFont f t = t\<lparr>text_font := f\<rparr>"

record QwtTextLabel =
  label_text :: QwtText
  label_font :: QFont
  label_frameWidth :: cint
  label_heightForWidth :: "cint \<Rightarrow> cint"

record QwtAbstractLegend =
  legend_isEmpty :: bool
  legend_frameWidth :: cint
  legend_hScrollExtent :: cint
  legend_vScrollExtent :: cint
  legend_sizeHint :: QSize
  legend_heightForWidth :: "cint \<Rightarrow> cint"

record QwtScaleWidget =
  scale_font :: QFont
  scale_startBorderDist :: cint
  scale_endBorderDist :: cint
  scale_margin :: cint
  scale_hasTicks :: bool
  scale_maxTickLength :: real
  scale_dimForLength :: "cint \<Rightarrow> QFont \<Rightarrow> cint"
  scale_titleIsEmpty :: bool
  scale_titleHeightForWidth :: "cint \<Rightarrow> cint"
  scale_minimumSizeHint :: QSize
  scale_borderDistHint :: "cint \<times> cint"

record QMargins =
  m_left :: cint
  m_top :: cint
  m_right :: cint
  m_bottom :: cint

record QwtPlot =
  plot_legend :: "QwtAbstractLegend option"
  plot_titleLabel :: "QwtTextLabel option"
  plot_footerLabel :: "QwtTextLabel option"
  plot_axisEnabled :: "int \<Rightarrow> bool"
  plot_axisWidget :: "int \<Rightarrow> QwtScaleWidget"
  canvas_contentsMargins :: QMargins
  canvas_minimumSize :: QSize

subsection \<open>LayoutData and PrivateData\<close>

record t_legendData =
  frameWidth :: cint
  hScrollExtent :: cint
  vScrollExtent :: cint
  hint :: QSize

record t_textData =
  textOf :: QwtText
  textFrameWidth :: cint

record t_scaleData =
  isEnabled :: bool
  scaleWidget :: QwtScaleWidget
  scaleFont :: QFont
  start :: cint
  end' :: cint
  baseLineOffset :: cint
  tickOffset :: real
  dimWithoutTitle :: cint

record LayoutData =
  legend :: t_legendData
  title :: t_textData
  footer :: t_textData
  scale :: "int \<Rightarrow> t_scaleData"
  contentsMargins :: "int \<Rightarrow> cint"

record PrivateData =
  titleRect :: QRectF
  footerRect :: QRectF
  legendRect :: QRectF
  scaleRect :: "int \<Rightarrow> QRectF"
  canvasRect :: QRectF
  layoutData :: LayoutData
  legendPos :: int
  legendRatio :: real
  spacing :: cint
  canvasMargin :: "int \<Rightarrow> cint"
  alignCanvasToScales :: "int \<Rightarrow> bool"

subsection \<open>LayoutData::init\<close>

definition QWIDGETSIZE_MAX :: cint where
  \<comment> \<open>Qt: \<^verbatim>\<open>(1 << 24) - 1\<close>\<close>
  "QWIDGETSIZE_MAX = 16777215"

definition initLegend :: "QwtPlot \<Rightarrow> QRectF \<Rightarrow> LayoutData \<Rightarrow> LayoutData" where
  \<comment> \<open>without a legend the entry keeps what it held\<close>
  "initLegend plot rect ld =
     (case plot_legend plot of
        None \<Rightarrow> ld
      | Some l \<Rightarrow>
          (let hintS = legend_sizeHint l;
               w = qMin (wd hintS) (qwtFloor (width rect));
               h = legend_heightForWidth l w;
               h = (if sint h \<le> 0 then ht hintS else h)
           in ld\<lparr>legend := \<lparr>frameWidth = legend_frameWidth l,
                  hScrollExtent = legend_hScrollExtent l,
                  vScrollExtent = legend_vScrollExtent l,
                  hint = \<lparr>wd = w, ht = h\<rparr>\<rparr>\<rparr>))"

definition initText :: "QwtTextLabel option \<Rightarrow> t_textData" where
  \<comment> \<open>the title and the footer are read the same way\<close>
  "initText labelOpt =
     (case labelOpt of
        None \<Rightarrow> \<lparr>textOf = QwtText_null, textFrameWidth = 0\<rparr>
      | Some label \<Rightarrow>
          (let t = label_text label;
               t = (if \<not> text_paintUsingTextFont t then setFont (label_font label) t else t)
           in \<lparr>textOf = t, textFrameWidth = label_frameWidth label\<rparr>))"

definition initScale :: "QwtPlot \<Rightarrow> int \<Rightarrow> LayoutData \<Rightarrow> LayoutData" where
  \<comment> \<open>the body of the loop over the axes; a disabled axis keeps its \<^verbatim>\<open>scaleWidget\<close>
      and \<^verbatim>\<open>scaleFont\<close>\<close>
  "initScale plot axis ld =
     (if plot_axisEnabled plot axis
      then (let scaleW = plot_axisWidget plot axis;
                tickOff = toDouble (scale_margin scaleW);
                tickOff = (if scale_hasTicks scaleW
                           then tickOff + scale_maxTickLength scaleW else tickOff);
                dim = scale_dimForLength scaleW QWIDGETSIZE_MAX (scale_font scaleW);
                dim = (if \<not> scale_titleIsEmpty scaleW
                       then dim - scale_titleHeightForWidth scaleW QWIDGETSIZE_MAX else dim)
            in ld\<lparr>scale := (scale ld)(axis :=
                 \<lparr>isEnabled = True, scaleWidget = scaleW, scaleFont = scale_font scaleW,
                  start = scale_startBorderDist scaleW, end' = scale_endBorderDist scaleW,
                  baseLineOffset = scale_margin scaleW, tickOffset = tickOff,
                  dimWithoutTitle = dim\<rparr>)\<rparr>)
      else ld\<lparr>scale := (scale ld)(axis :=
             (scale ld axis)\<lparr>isEnabled := False, start := 0, end' := 0, baseLineOffset := 0,
               tickOffset := 0, dimWithoutTitle := 0\<rparr>)\<rparr>)"

definition initCanvas :: "QwtPlot \<Rightarrow> LayoutData \<Rightarrow> LayoutData" where
  "initCanvas plot ld =
     (let m = canvas_contentsMargins plot
      in ld\<lparr>contentsMargins := (contentsMargins ld)
           (yLeft := m_left m, xTop := m_top m, yRight := m_right m, xBottom := m_bottom m)\<rparr>)"

definition init :: "QwtPlot \<Rightarrow> QRectF \<Rightarrow> LayoutData \<Rightarrow> LayoutData" where
  "init plot rect ld =
     (let ld = initLegend plot rect ld;
          ld = ld\<lparr>title := initText (plot_titleLabel plot)\<rparr>;
          ld = ld\<lparr>footer := initText (plot_footerLabel plot)\<rparr>;
          ld = fold (initScale plot) axes ld
      in initCanvas plot ld)"

subsection \<open>The configuration store\<close>

definition setCanvasMargin :: "cint \<Rightarrow> int \<Rightarrow> PrivateData \<Rightarrow> PrivateData" where
  "setCanvasMargin margin axis d =
     (let margin = (if slt margin (- 1) then - 1 else margin)
      in if axis = - 1
         then fold (\<lambda>axis d. d\<lparr>canvasMargin := (canvasMargin d)(axis := margin)\<rparr>) axes d
         else if 0 \<le> axis \<and> axis < axisCnt
         then d\<lparr>canvasMargin := (canvasMargin d)(axis := margin)\<rparr>
         else d)"

definition canvasMarginOf :: "PrivateData \<Rightarrow> int \<Rightarrow> cint" where
  \<comment> \<open>the accessor \<^verbatim>\<open>canvasMargin( axisId )\<close>\<close>
  "canvasMarginOf d axisId =
     (if axisId < 0 \<or> axisCnt \<le> axisId then 0 else canvasMargin d axisId)"

definition setAlignCanvasToScales :: "bool \<Rightarrow> PrivateData \<Rightarrow> PrivateData" where
  "setAlignCanvasToScales on d =
     fold (\<lambda>axis d. d\<lparr>alignCanvasToScales := (alignCanvasToScales d)(axis := on)\<rparr>) axes d"

definition setAlignCanvasToScale :: "int \<Rightarrow> bool \<Rightarrow> PrivateData \<Rightarrow> PrivateData" where
  "setAlignCanvasToScale axisId on d =
     (if 0 \<le> axisId \<and> axisId < axisCnt
      then d\<lparr>alignCanvasToScales := (alignCanvasToScales d)(axisId := on)\<rparr>
      else d)"

definition alignCanvasToScale :: "PrivateData \<Rightarrow> int \<Rightarrow> bool" where
  "alignCanvasToScale d axisId =
     (if axisId < 0 \<or> axisCnt \<le> axisId then False else alignCanvasToScales d axisId)"

definition setSpacing :: "cint \<Rightarrow> PrivateData \<Rightarrow> PrivateData" where
  "setSpacing v d = d\<lparr>spacing := qMax 0 v\<rparr>"

definition setLegendPosition :: "int \<Rightarrow> real \<Rightarrow> PrivateData \<Rightarrow> PrivateData" where
  "setLegendPosition pos ratio d =
     (let ratio = (if 1 < ratio then 1 else ratio)
      in if pos = TopLegend \<or> pos = BottomLegend
         then (let ratio = (if ratio \<le> 0 then 0.33 else ratio)
               in d\<lparr>legendRatio := ratio, legendPos := pos\<rparr>)
         else if pos = LeftLegend \<or> pos = RightLegend
         then (let ratio = (if ratio \<le> 0 then 0.5 else ratio)
               in d\<lparr>legendRatio := ratio, legendPos := pos\<rparr>)
         else d)"

definition legendPosition :: "PrivateData \<Rightarrow> int" where
  "legendPosition d = legendPos d"

definition setLegendRatio :: "real \<Rightarrow> PrivateData \<Rightarrow> PrivateData" where
  "setLegendRatio ratio d = setLegendPosition (legendPosition d) ratio d"

definition legendRatioOf :: "PrivateData \<Rightarrow> real" where
  \<comment> \<open>the accessor \<^verbatim>\<open>legendRatio()\<close>\<close>
  "legendRatioOf d = legendRatio d"

definition setScaleRect :: "int \<Rightarrow> QRectF \<Rightarrow> PrivateData \<Rightarrow> PrivateData" where
  "setScaleRect axis rect d =
     (if 0 \<le> axis \<and> axis < axisCnt then d\<lparr>scaleRect := (scaleRect d)(axis := rect)\<rparr> else d)"

definition scaleRectOf :: "PrivateData \<Rightarrow> int \<Rightarrow> QRectF" where
  \<comment> \<open>the accessor \<^verbatim>\<open>scaleRect( axis )\<close>\<close>
  "scaleRectOf d axis =
     (if axis < 0 \<or> axisCnt \<le> axis then QRectF_null else scaleRect d axis)"

definition invalidate :: "PrivateData \<Rightarrow> PrivateData" where
  "invalidate d =
     fold (\<lambda>axis d. d\<lparr>scaleRect := (scaleRect d)(axis := QRectF_null)\<rparr>) axes
       (d\<lparr>titleRect := QRectF_null, footerRect := QRectF_null,
          legendRect := QRectF_null, canvasRect := QRectF_null\<rparr>)"

definition QwtPlotLayout :: "PrivateData \<Rightarrow> PrivateData" where
  \<comment> \<open>The constructor. Its argument stands for the memory the constructor of
      \<^verbatim>\<open>PrivateData\<close> leaves uninitialised.\<close>
  "QwtPlotLayout raw =
     invalidate (setAlignCanvasToScales False (setCanvasMargin 4 (- 1)
       (setLegendPosition BottomLegend 0
         (raw\<lparr>titleRect := QRectF_null, footerRect := QRectF_null,
              legendRect := QRectF_null, scaleRect := (\<lambda>_. QRectF_null),
              canvasRect := QRectF_null, legendRatio := 1, spacing := 5\<rparr>))))"

subsection \<open>minimumSizeHint\<close>

record ScaleData =
  sd_w :: cint
  sd_h :: cint
  minLeft :: cint
  minRight :: cint
  sd_tickOffset :: cint

definition ScaleData_null :: ScaleData where
  \<comment> \<open>the constructor \<^verbatim>\<open>ScaleData()\<close>\<close>
  "ScaleData_null = \<lparr>sd_w = 0, sd_h = 0, minLeft = 0, minRight = 0, sd_tickOffset = 0\<rparr>"

definition readScaleData :: "QwtPlot \<Rightarrow> int \<Rightarrow> ScaleData" where
  \<comment> \<open>the first loop of \<^verbatim>\<open>minimumSizeHint\<close>, entry \<open>axis\<close> of \<^verbatim>\<open>scaleData\<close>\<close>
  "readScaleData plot axis =
     (if plot_axisEnabled plot axis
      then (let scl = plot_axisWidget plot axis;
                hint = scale_minimumSizeHint scl;
                tickOffset = scale_margin scl;
                tickOffset = (if scale_hasTicks scl
                              then tickOffset + qwtCeil (scale_maxTickLength scl)
                              else tickOffset)
            in \<lparr>sd_w = wd hint, sd_h = ht hint,
                minLeft = fst (scale_borderDistHint scl),
                minRight = snd (scale_borderDistHint scl),
                sd_tickOffset = tickOffset\<rparr>)
      else ScaleData_null)"

definition canvasBorderOf :: "QwtPlot \<Rightarrow> PrivateData \<Rightarrow> int \<Rightarrow> cint" where
  \<comment> \<open>\<^verbatim>\<open>canvasBorder[axis] = fw + m_data->canvasMargin[axis] + 1\<close>\<close>
  "canvasBorderOf plot d axis = m_left (canvas_contentsMargins plot) + canvasMargin d axis + 1"

definition subW :: "int \<Rightarrow> cint \<Rightarrow> (int \<Rightarrow> ScaleData) \<Rightarrow> (int \<Rightarrow> ScaleData)" where
  \<comment> \<open>\<^verbatim>\<open>scaleData[axis].w -= v\<close>\<close>
  "subW axis v sds = sds(axis := (sds axis)\<lparr>sd_w := sd_w (sds axis) - v\<rparr>)"

definition subH :: "int \<Rightarrow> cint \<Rightarrow> (int \<Rightarrow> ScaleData) \<Rightarrow> (int \<Rightarrow> ScaleData)" where
  \<comment> \<open>\<^verbatim>\<open>scaleData[axis].h -= v\<close>\<close>
  "subH axis v sds = sds(axis := (sds axis)\<lparr>sd_h := sd_h (sds axis) - v\<rparr>)"

definition shiftLeftStep ::
  "(int \<Rightarrow> cint) \<Rightarrow> int \<Rightarrow> (int \<Rightarrow> ScaleData) \<Rightarrow> (int \<Rightarrow> ScaleData)" where
  \<comment> \<open>the first \<^verbatim>\<open>if\<close> of the branch of the horizontal axes\<close>
  "shiftLeftStep canvasBorder axis sds =
     (if slt (canvasBorder yLeft) (minLeft (sds axis)) \<and> sd_w (sds yLeft) \<noteq> 0
      then (let shiftLeft = minLeft (sds axis) - canvasBorder yLeft;
                shiftLeft = (if slt (sd_w (sds yLeft)) shiftLeft
                             then sd_w (sds yLeft) else shiftLeft)
            in subW axis shiftLeft sds)
      else sds)"

definition shiftRightStep ::
  "(int \<Rightarrow> cint) \<Rightarrow> int \<Rightarrow> (int \<Rightarrow> ScaleData) \<Rightarrow> (int \<Rightarrow> ScaleData)" where
  "shiftRightStep canvasBorder axis sds =
     (if slt (canvasBorder yRight) (minRight (sds axis)) \<and> sd_w (sds yRight) \<noteq> 0
      then (let shiftRight = minRight (sds axis) - canvasBorder yRight;
                shiftRight = (if slt (sd_w (sds yRight)) shiftRight
                              then sd_w (sds yRight) else shiftRight)
            in subW axis shiftRight sds)
      else sds)"

definition shiftBottomStep ::
  "(int \<Rightarrow> cint) \<Rightarrow> int \<Rightarrow> (int \<Rightarrow> ScaleData) \<Rightarrow> (int \<Rightarrow> ScaleData)" where
  \<comment> \<open>the first \<^verbatim>\<open>if\<close> of the branch of the vertical axes\<close>
  "shiftBottomStep canvasBorder axis sds =
     (if slt (canvasBorder xBottom) (minLeft (sds axis)) \<and> sd_h (sds xBottom) \<noteq> 0
      then (let shiftBottom = minLeft (sds axis) - canvasBorder xBottom;
                shiftBottom = (if slt (sd_tickOffset (sds xBottom)) shiftBottom
                               then sd_tickOffset (sds xBottom) else shiftBottom)
            in subH axis shiftBottom sds)
      else sds)"

definition shiftTopStep ::
  "(int \<Rightarrow> cint) \<Rightarrow> int \<Rightarrow> (int \<Rightarrow> ScaleData) \<Rightarrow> (int \<Rightarrow> ScaleData)" where
  \<comment> \<open>the condition reads \<^verbatim>\<open>sd.minLeft\<close>, the shift \<^verbatim>\<open>sd.minRight\<close>\<close>
  "shiftTopStep canvasBorder axis sds =
     (if slt (canvasBorder xTop) (minLeft (sds axis)) \<and> sd_h (sds xTop) \<noteq> 0
      then (let shiftTop = minRight (sds axis) - canvasBorder xTop;
                shiftTop = (if slt (sd_tickOffset (sds xTop)) shiftTop
                            then sd_tickOffset (sds xTop) else shiftTop)
            in subH axis shiftTop sds)
      else sds)"

definition correctAxis ::
  "(int \<Rightarrow> cint) \<Rightarrow> int \<Rightarrow> (int \<Rightarrow> ScaleData) \<Rightarrow> (int \<Rightarrow> ScaleData)" where
  \<comment> \<open>the body of the second loop; \<^verbatim>\<open>sd\<close> is a reference to \<^verbatim>\<open>scaleData[axis]\<close>\<close>
  "correctAxis canvasBorder axis sds =
     (let sds =
        (if sd_w (sds axis) \<noteq> 0 \<and> (axis = xBottom \<or> axis = xTop)
         then shiftRightStep canvasBorder axis (shiftLeftStep canvasBorder axis sds)
         else sds)
      in if sd_h (sds axis) \<noteq> 0 \<and> (axis = yLeft \<or> axis = yRight)
         then shiftTopStep canvasBorder axis (shiftBottomStep canvasBorder axis sds)
         else sds)"

definition cornerCorrection ::
  "(int \<Rightarrow> cint) \<Rightarrow> (int \<Rightarrow> ScaleData) \<Rightarrow> (int \<Rightarrow> ScaleData)" where
  \<comment> \<open>the second loop of \<^verbatim>\<open>minimumSizeHint\<close>\<close>
  "cornerCorrection canvasBorder sds = fold (correctAxis canvasBorder) axes sds"

definition addLabel ::
  "QwtPlot \<Rightarrow> PrivateData \<Rightarrow> (int \<Rightarrow> ScaleData) \<Rightarrow> QwtTextLabel option \<Rightarrow> cint \<times> cint
   \<Rightarrow> cint \<times> cint" where
  \<comment> \<open>one round of the loop over title and footer; the pair is \<^verbatim>\<open>(w, h)\<close>\<close>
  "addLabel plot d sds label wh =
     (case label of
        None \<Rightarrow> wh
      | Some l \<Rightarrow>
          if text_isEmpty (label_text l) then wh
          else (let (w, h) = wh;
                    centerOnCanvas =
                      (\<not> (plot_axisEnabled plot yLeft \<and> plot_axisEnabled plot yRight));
                    labelW = (if centerOnCanvas
                              then w - (sd_w (sds yLeft) + sd_w (sds yRight)) else w);
                    labelH = label_heightForWidth l labelW
                in if slt labelW labelH
                   then (let labelW = labelH;
                             w = (if centerOnCanvas
                                  then labelH + (sd_w (sds yLeft) + sd_w (sds yRight))
                                  else labelH);
                             labelH = label_heightForWidth l labelW
                         in (w, h + (labelH + spacing d)))
                   else (w, h + (labelH + spacing d))))"

definition addLegend :: "QwtPlot \<Rightarrow> PrivateData \<Rightarrow> cint \<times> cint \<Rightarrow> cint \<times> cint" where
  \<comment> \<open>the legend contribution to \<^verbatim>\<open>(w, h)\<close>\<close>
  "addLegend plot d wh =
     (case plot_legend plot of
        None \<Rightarrow> wh
      | Some l \<Rightarrow>
          if legend_isEmpty l then wh
          else (let (w, h) = wh
                in if legendPos d = LeftLegend \<or> legendPos d = RightLegend
                   then (let legendW = wd (legend_sizeHint l);
                             legendH = legend_heightForWidth l legendW;
                             w = (if slt 0 (legend_frameWidth l) then w + spacing d else w);
                             legendW = (if slt h legendH
                                        then legendW + legend_hScrollExtent l else legendW);
                             legendW = (if legendRatio d < 1
                                        then qMin legendW (toInt (toDouble w / (1 - legendRatio d)))
                                        else legendW)
                         in (w + (legendW + spacing d), h))
                   else (let legendW = qMin (wd (legend_sizeHint l)) w;
                             legendH = legend_heightForWidth l legendW;
                             h = (if slt 0 (legend_frameWidth l) then h + spacing d else h);
                             legendH = (if legendRatio d < 1
                                        then qMin legendH (toInt (toDouble h / (1 - legendRatio d)))
                                        else legendH)
                         in (w, h + (legendH + spacing d)))))"

definition minimumSizeHint :: "QwtPlot \<Rightarrow> PrivateData \<Rightarrow> QSize" where
  "minimumSizeHint plot d =
     (let scaleData = cornerCorrection (canvasBorderOf plot d) (readScaleData plot);
          m = canvas_contentsMargins plot;
          minCanvasSize = canvas_minimumSize plot;
          w = sd_w (scaleData yLeft) + sd_w (scaleData yRight);
          cw = qMax (sd_w (scaleData xBottom)) (sd_w (scaleData xTop))
                 + m_left m + 1 + m_right m + 1;
          w = w + qMax cw (wd minCanvasSize);
          h = sd_h (scaleData xBottom) + sd_h (scaleData xTop);
          ch = qMax (sd_h (scaleData yLeft)) (sd_h (scaleData yRight))
                 + m_top m + 1 + m_bottom m + 1;
          h = h + qMax ch (ht minCanvasSize);
          wh = addLabel plot d scaleData (plot_titleLabel plot) (w, h);
          wh = addLabel plot d scaleData (plot_footerLabel plot) wh;
          (w, h) = addLegend plot d wh
      in \<lparr>wd = w, ht = h\<rparr>)"

subsection \<open>layoutLegend and alignLegend\<close>

definition layoutLegend :: "Options \<Rightarrow> QRectF \<Rightarrow> PrivateData \<Rightarrow> QRectF" where
  "layoutLegend options rect d =
     (let hint = hint (legend (layoutData d));
          dim =
            (if legendPos d = LeftLegend \<or> legendPos d = RightLegend
             then (let dim = qMin (wd hint) (toInt (width rect * legendRatio d))
                   in if IgnoreScrollbars \<notin> options \<and> height rect < toDouble (ht hint)
                      then dim + hScrollExtent (legend (layoutData d))
                      else dim)
             else qMax (qMin (ht hint) (toInt (height rect * legendRatio d)))
                    (vScrollExtent (legend (layoutData d))));
          legendR = rect
      in if legendPos d = LeftLegend then setWidth (toDouble dim) legendR
         else if legendPos d = RightLegend
         then setWidth (toDouble dim) (setX (right rect - toDouble dim) legendR)
         else if legendPos d = TopLegend then setHeight (toDouble dim) legendR
         else if legendPos d = BottomLegend
         then setHeight (toDouble dim) (setY (bottom rect - toDouble dim) legendR)
         else legendR)"

definition alignLegend :: "QRectF \<Rightarrow> QRectF \<Rightarrow> PrivateData \<Rightarrow> QRectF" where
  "alignLegend canvasR legendR d =
     (if legendPos d = BottomLegend \<or> legendPos d = TopLegend
      then (if toDouble (wd (hint (legend (layoutData d)))) < width canvasR
            then setWidth (width canvasR) (setX (xp canvasR) legendR)
            else legendR)
      else (if toDouble (ht (hint (legend (layoutData d)))) < height canvasR
            then setHeight (height canvasR) (setY (yp canvasR) legendR)
            else legendR))"

text \<open>A concrete content of the uninitialised memory, for running the model: all zero.\<close>

definition zeroScaleWidget :: QwtScaleWidget where
  "zeroScaleWidget = \<lparr>scale_font = [], scale_startBorderDist = 0, scale_endBorderDist = 0,
     scale_margin = 0, scale_hasTicks = False, scale_maxTickLength = 0,
     scale_dimForLength = (\<lambda>_ _. 0), scale_titleIsEmpty = True,
     scale_titleHeightForWidth = (\<lambda>_. 0), scale_minimumSizeHint = \<lparr>wd = 0, ht = 0\<rparr>,
     scale_borderDistHint = (0, 0)\<rparr>"

definition zeroScaleData :: t_scaleData where
  "zeroScaleData = \<lparr>isEnabled = False, scaleWidget = zeroScaleWidget, scaleFont = [],
     start = 0, end' = 0, baseLineOffset = 0, tickOffset = 0, dimWithoutTitle = 0\<rparr>"

definition zeroLayoutData :: LayoutData where
  "zeroLayoutData = \<lparr>
     legend = \<lparr>frameWidth = 0, hScrollExtent = 0, vScrollExtent = 0,
       hint = \<lparr>wd = 0, ht = 0\<rparr>\<rparr>,
     title = \<lparr>textOf = QwtText_null, textFrameWidth = 0\<rparr>,
     footer = \<lparr>textOf = QwtText_null, textFrameWidth = 0\<rparr>,
     scale = (\<lambda>_. zeroScaleData), contentsMargins = (\<lambda>_. 0)\<rparr>"

definition zeroData :: PrivateData where
  "zeroData = \<lparr>titleRect = QRectF_null, footerRect = QRectF_null, legendRect = QRectF_null,
     scaleRect = (\<lambda>_. QRectF_null), canvasRect = QRectF_null, layoutData = zeroLayoutData,
     legendPos = 0, legendRatio = 0, spacing = 0, canvasMargin = (\<lambda>_. 0),
     alignCanvasToScales = (\<lambda>_. False)\<rparr>"

definition defaultLayout :: PrivateData where
  \<comment> \<open>a freshly constructed layout\<close>
  "defaultLayout = QwtPlotLayout zeroData"

definition validLegendPos :: "PrivateData \<Rightarrow> bool" where
  "validLegendPos d \<longleftrightarrow>
     legendPos d = LeftLegend \<or> legendPos d = RightLegend
     \<or> legendPos d = TopLegend \<or> legendPos d = BottomLegend"

subsection \<open>The shifts of the corner correction, in closed form\<close>

definition cornerShift :: "cint \<Rightarrow> cint \<Rightarrow> cint \<Rightarrow> cint" where
  \<comment> \<open>the smaller of \<open>extent\<close> and the excess of the border distance \<open>bd\<close> over the
      canvas border, when there is an excess\<close>
  "cornerShift extent bd border = (if slt border bd then qMin extent (bd - border) else 0)"

definition leftShift :: "(int \<Rightarrow> cint) \<Rightarrow> (int \<Rightarrow> ScaleData) \<Rightarrow> int \<Rightarrow> cint" where
  "leftShift cb sds a =
     (if slt (cb yLeft) (minLeft (sds a)) \<and> sd_w (sds yLeft) \<noteq> 0
      then qMin (sd_w (sds yLeft)) (minLeft (sds a) - cb yLeft) else 0)"

definition rightShift :: "(int \<Rightarrow> cint) \<Rightarrow> (int \<Rightarrow> ScaleData) \<Rightarrow> int \<Rightarrow> cint" where
  "rightShift cb sds a =
     (if slt (cb yRight) (minRight (sds a)) \<and> sd_w (sds yRight) \<noteq> 0
      then qMin (sd_w (sds yRight)) (minRight (sds a) - cb yRight) else 0)"

definition bottomShift :: "(int \<Rightarrow> cint) \<Rightarrow> (int \<Rightarrow> ScaleData) \<Rightarrow> int \<Rightarrow> cint" where
  "bottomShift cb sds a =
     (if slt (cb xBottom) (minLeft (sds a)) \<and> sd_h (sds xBottom) \<noteq> 0
      then qMin (sd_tickOffset (sds xBottom)) (minLeft (sds a) - cb xBottom) else 0)"

definition topShift :: "(int \<Rightarrow> cint) \<Rightarrow> (int \<Rightarrow> ScaleData) \<Rightarrow> int \<Rightarrow> cint" where
  \<comment> \<open>as the code has it: guarded by \<open>minLeft\<close>, computed from \<open>minRight\<close>\<close>
  "topShift cb sds a =
     (if slt (cb xTop) (minLeft (sds a)) \<and> sd_h (sds xTop) \<noteq> 0
      then qMin (sd_tickOffset (sds xTop)) (minRight (sds a) - cb xTop) else 0)"

definition claimed_verticalHeight ::
  "(int \<Rightarrow> cint) \<Rightarrow> (int \<Rightarrow> ScaleData) \<Rightarrow> int \<Rightarrow> cint" where
  \<comment> \<open>The height of a vertical axis as the specification words it: the correction of the
      horizontal axes with the roles exchanged, that is, reduced by the smaller of the
      horizontal axis's extent (its height) and the excess border distance, against the
      bottom and against the top.\<close>
  "claimed_verticalHeight canvasBorder sds a =
     sd_h (sds a)
     - cornerShift (sd_h (sds xBottom)) (minLeft (sds a)) (canvasBorder xBottom)
     - cornerShift (sd_h (sds xTop)) (minRight (sds a)) (canvasBorder xTop)"

subsection \<open>Concrete plots, for running the model\<close>

definition exampleScale :: "cint \<Rightarrow> cint \<Rightarrow> cint \<Rightarrow> cint \<Rightarrow> QwtScaleWidget" where
  \<comment> \<open>a scale with margin 2 and ticks of length 6, with the given minimum size hint and
      border distance hints\<close>
  "exampleScale mw mh dl dr = zeroScaleWidget\<lparr>scale_margin := 2, scale_hasTicks := True,
     scale_maxTickLength := 6, scale_minimumSizeHint := \<lparr>wd = mw, ht = mh\<rparr>,
     scale_borderDistHint := (dl, dr)\<rparr>"

definition examplePlot :: QwtPlot where
  \<comment> \<open>a plot with a left and a bottom axis, no title, footer or legend\<close>
  "examplePlot = \<lparr>plot_legend = None, plot_titleLabel = None, plot_footerLabel = None,
     plot_axisEnabled = (\<lambda>a. a = yLeft \<or> a = xBottom),
     plot_axisWidget = (\<lambda>a. if a = yLeft then exampleScale 40 100 20 20
                             else exampleScale 100 30 12 0),
     canvas_contentsMargins = \<lparr>m_left = 0, m_top = 0, m_right = 0, m_bottom = 0\<rparr>,
     canvas_minimumSize = \<lparr>wd = 0, ht = 0\<rparr>\<rparr>"

definition exampleLegend :: QwtAbstractLegend where
  "exampleLegend = \<lparr>legend_isEmpty = False, legend_frameWidth = 0, legend_hScrollExtent = 16,
     legend_vScrollExtent = 16, legend_sizeHint = \<lparr>wd = 120, ht = 40\<rparr>,
     legend_heightForWidth = (\<lambda>_. 40)\<rparr>"

definition legendPlot :: QwtPlot where
  \<comment> \<open>a plot with a legend only\<close>
  "legendPlot = \<lparr>plot_legend = Some exampleLegend, plot_titleLabel = None,
     plot_footerLabel = None, plot_axisEnabled = (\<lambda>_. False),
     plot_axisWidget = (\<lambda>_. zeroScaleWidget),
     canvas_contentsMargins = \<lparr>m_left = 0, m_top = 0, m_right = 0, m_bottom = 0\<rparr>,
     canvas_minimumSize = \<lparr>wd = 0, ht = 0\<rparr>\<rparr>"


subsection \<open>alignScales\<close>

text \<open>
  \<^verbatim>\<open>alignScales\<close> works on the canvas rectangle and on the array of scale rectangles, both
  passed by reference; here they are a pair that each step returns updated.
  \<^verbatim>\<open>qwtMinF\<close> and \<^verbatim>\<open>qwtMaxF\<close> are \<open>min\<close> and \<open>max\<close>.
\<close>

type_synonym rects = "QRectF \<times> (int \<Rightarrow> QRectF)"

definition backboneOffsetA :: "Options \<Rightarrow> PrivateData \<Rightarrow> int \<Rightarrow> cint" where
  \<comment> \<open>\<^verbatim>\<open>backboneOffset[axis]\<close> as \<^verbatim>\<open>alignScales\<close> computes it\<close>
  "backboneOffsetA options d axis =
     (let b = 0;
          b = (if \<not> alignCanvasToScales d axis then b + canvasMargin d axis else b)
      in if IgnoreFrames \<notin> options then b + contentsMargins (layoutData d) axis else b)"

definition alignLeftStep :: "Options \<Rightarrow> PrivateData \<Rightarrow> int \<Rightarrow> rects \<Rightarrow> rects" where
  \<comment> \<open>a horizontal axis against the left scale\<close>
  "alignLeftStep options d axis cs =
     (let (canvasR, sr) = cs;
          startDist = start (scale (layoutData d) axis);
          leftOffset = backboneOffsetA options d yLeft - startDist
      in if isValid (sr yLeft)
         then (let dx = toDouble leftOffset + width (sr yLeft)
               in if alignCanvasToScales d yLeft \<and> dx < 0
                  then (setLeft (max (left canvasR) (left (sr axis) - dx)) canvasR, sr)
                  else (canvasR, sr(axis :=
                          setLeft (max (left (sr axis) + toDouble leftOffset) (left (sr yLeft)))
                            (sr axis))))
         else if alignCanvasToScales d yLeft \<and> sint leftOffset < 0
         then (setLeft (max (left canvasR) (left (sr axis) - toDouble leftOffset)) canvasR, sr)
         else if 0 < sint leftOffset
         then (canvasR, sr(axis := setLeft (left (sr axis) + toDouble leftOffset) (sr axis)))
         else (canvasR, sr))"

definition alignRightStep :: "Options \<Rightarrow> PrivateData \<Rightarrow> int \<Rightarrow> rects \<Rightarrow> rects" where
  \<comment> \<open>a horizontal axis against the right scale; here the axis rectangle is clipped also
      when the canvas was moved\<close>
  "alignRightStep options d axis cs =
     (let (canvasR, sr) = cs;
          endDist = end' (scale (layoutData d) axis);
          rightOffset = backboneOffsetA options d yRight - endDist + 1
      in if isValid (sr yRight)
         then (let dx = toDouble rightOffset + width (sr yRight);
                   canvasR = (if alignCanvasToScales d yRight \<and> dx < 0
                              then setRight (min (right canvasR) (right (sr axis) + dx)) canvasR
                              else canvasR)
               in (canvasR, sr(axis :=
                     setRight (min (right (sr axis) - toDouble rightOffset) (right (sr yRight)))
                       (sr axis))))
         else if alignCanvasToScales d yRight \<and> sint rightOffset < 0
         then (setRight (min (right canvasR) (right (sr axis) + toDouble rightOffset)) canvasR, sr)
         else if 0 < sint rightOffset
         then (canvasR, sr(axis := setRight (right (sr axis) - toDouble rightOffset) (sr axis)))
         else (canvasR, sr))"

definition alignBottomStep :: "Options \<Rightarrow> PrivateData \<Rightarrow> int \<Rightarrow> rects \<Rightarrow> rects" where
  \<comment> \<open>a vertical axis against the bottom scale\<close>
  "alignBottomStep options d axis cs =
     (let (canvasR, sr) = cs;
          endDist = end' (scale (layoutData d) axis);
          bottomOffset = backboneOffsetA options d xBottom - endDist + 1
      in if isValid (sr xBottom)
         then (let dy = toDouble bottomOffset + height (sr xBottom)
               in if alignCanvasToScales d xBottom \<and> dy < 0
                  then (setBottom (min (bottom canvasR) (bottom (sr axis) + dy)) canvasR, sr)
                  else (let maxBottom = top' (sr xBottom)
                              + tickOffset (scale (layoutData d) xBottom)
                        in (canvasR, sr(axis :=
                              setBottom (min (bottom (sr axis) - toDouble bottomOffset) maxBottom)
                                (sr axis)))))
         else if alignCanvasToScales d xBottom \<and> sint bottomOffset < 0
         then (setBottom (min (bottom canvasR) (bottom (sr axis) + toDouble bottomOffset)) canvasR,
               sr)
         else if 0 < sint bottomOffset
         then (canvasR, sr(axis := setBottom (bottom (sr axis) - toDouble bottomOffset) (sr axis)))
         else (canvasR, sr))"

definition alignTopStep :: "Options \<Rightarrow> PrivateData \<Rightarrow> int \<Rightarrow> rects \<Rightarrow> rects" where
  \<comment> \<open>a vertical axis against the top scale\<close>
  "alignTopStep options d axis cs =
     (let (canvasR, sr) = cs;
          startDist = start (scale (layoutData d) axis);
          topOffset = backboneOffsetA options d xTop - startDist
      in if isValid (sr xTop)
         then (let dy = toDouble topOffset + height (sr xTop)
               in if alignCanvasToScales d xTop \<and> dy < 0
                  then (setTop (max (top' canvasR) (top' (sr axis) - dy)) canvasR, sr)
                  else (let minTop = bottom (sr xTop) - tickOffset (scale (layoutData d) xTop)
                        in (canvasR, sr(axis :=
                              setTop (max (top' (sr axis) + toDouble topOffset) minTop)
                                (sr axis)))))
         else if alignCanvasToScales d xTop \<and> sint topOffset < 0
         then (setTop (max (top' canvasR) (top' (sr axis) - toDouble topOffset)) canvasR, sr)
         else if 0 < sint topOffset
         then (canvasR, sr(axis := setTop (top' (sr axis) + toDouble topOffset) (sr axis)))
         else (canvasR, sr))"

definition alignAxis :: "Options \<Rightarrow> PrivateData \<Rightarrow> int \<Rightarrow> rects \<Rightarrow> rects" where
  \<comment> \<open>the body of the first loop\<close>
  "alignAxis options d axis cs =
     (if \<not> isValid (snd cs axis) then cs
      else if axis = xTop \<or> axis = xBottom
      then alignRightStep options d axis (alignLeftStep options d axis cs)
      else alignTopStep options d axis (alignBottomStep options d axis cs))"

definition realignAxis ::
  "Options \<Rightarrow> PrivateData \<Rightarrow> QRectF \<Rightarrow> int \<Rightarrow> (int \<Rightarrow> QRectF) \<Rightarrow> (int \<Rightarrow> QRectF)" where
  \<comment> \<open>the body of the second loop, which no longer changes the canvas rectangle\<close>
  "realignAxis options d canvasR axis sr =
     (if \<not> isValid (sr axis) then sr
      else if axis = xBottom \<or> axis = xTop
      then (let sRect = sr axis;
                sRect =
                  (if alignCanvasToScales d yLeft
                   then (let y = left canvasR - toDouble (start (scale (layoutData d) axis));
                             y = (if IgnoreFrames \<notin> options
                                  then y + toDouble (contentsMargins (layoutData d) yLeft) else y)
                         in setLeft y sRect)
                   else sRect);
                sRect =
                  (if alignCanvasToScales d yRight
                   then (let y = right canvasR - 1 + toDouble (end' (scale (layoutData d) axis));
                             y = (if IgnoreFrames \<notin> options
                                  then y - toDouble (contentsMargins (layoutData d) yRight) else y)
                         in setRight y sRect)
                   else sRect);
                sRect =
                  (if alignCanvasToScales d axis
                   then (if axis = xTop then setBottom (top' canvasR) sRect
                         else setTop (bottom canvasR) sRect)
                   else sRect)
            in sr(axis := sRect))
      else (let sRect = sr axis;
                sRect =
                  (if alignCanvasToScales d xTop
                   then (let x = top' canvasR - toDouble (start (scale (layoutData d) axis));
                             x = (if IgnoreFrames \<notin> options
                                  then x + toDouble (contentsMargins (layoutData d) xTop) else x)
                         in setTop x sRect)
                   else sRect);
                sRect =
                  (if alignCanvasToScales d xBottom
                   then (let x = bottom canvasR - 1 + toDouble (end' (scale (layoutData d) axis));
                             x = (if IgnoreFrames \<notin> options
                                  then x - toDouble (contentsMargins (layoutData d) xBottom) else x)
                         in setBottom x sRect)
                   else sRect);
                sRect =
                  (if alignCanvasToScales d axis
                   then (if axis = yLeft then setRight (left canvasR) sRect
                         else setLeft (right canvasR) sRect)
                   else sRect)
            in sr(axis := sRect)))"

definition alignScales :: "Options \<Rightarrow> rects \<Rightarrow> PrivateData \<Rightarrow> rects" where
  "alignScales options cs d =
     (let (canvasR, sr) = fold (alignAxis options d) axes cs
      in (canvasR, fold (realignAxis options d canvasR) axes sr))"


definition shrinksTo :: "QRectF \<Rightarrow> QRectF \<Rightarrow> bool" where
  \<comment> \<open>no edge of \<open>c'\<close> lies outside of \<open>c\<close>\<close>
  "shrinksTo c' c \<longleftrightarrow>
     left c \<le> left c' \<and> top' c \<le> top' c' \<and> right c' \<le> right c \<and> bottom c' \<le> bottom c"




subsection \<open>expandLineBreaks\<close>

record Dims =
  dimTitle :: cint
  dimFooter :: cint
  dimAxis :: "int \<Rightarrow> cint"

type_synonym loopState = "bool \<times> Dims"

definition backboneOffsetE :: "Options \<Rightarrow> PrivateData \<Rightarrow> int \<Rightarrow> cint" where
  \<comment> \<open>\<^verbatim>\<open>backboneOffset[axis]\<close> as \<^verbatim>\<open>expandLineBreaks\<close> computes it\<close>
  "backboneOffsetE options d axis =
     (let b = 0;
          b = (if IgnoreFrames \<notin> options then b + contentsMargins (layoutData d) axis else b)
      in if \<not> alignCanvasToScales d axis then b + canvasMargin d axis else b)"

definition labelWidth :: "QRectF \<Rightarrow> PrivateData \<Rightarrow> Dims \<Rightarrow> real" where
  \<comment> \<open>the width for the title and for the footer: centred to the canvas when exactly one
      of the vertical axes is enabled\<close>
  "labelWidth rect d dims =
     (let w = width rect
      in if isEnabled (scale (layoutData d) yLeft) \<noteq> isEnabled (scale (layoutData d) yRight)
         then w - toDouble (dimAxis dims yLeft + dimAxis dims yRight)
         else w)"

definition titleStep :: "Options \<Rightarrow> QRectF \<Rightarrow> PrivateData \<Rightarrow> loopState \<Rightarrow> loopState" where
  "titleStep options rect d st =
     (let (done, dims) = st
      in if \<not> (IgnoreTitle \<in> options \<or> text_isEmpty (textOf (title (layoutData d))))
         then (let w = labelWidth rect d dims;
                   d0 = qwtCeil (heightForWidth (textOf (title (layoutData d))) w);
                   d0 = (if IgnoreFrames \<notin> options
                         then d0 + 2 * textFrameWidth (title (layoutData d)) else d0)
               in if slt (dimTitle dims) d0 then (False, dims\<lparr>dimTitle := d0\<rparr>)
                  else (done, dims))
         else (done, dims))"

definition footerStep :: "Options \<Rightarrow> QRectF \<Rightarrow> PrivateData \<Rightarrow> loopState \<Rightarrow> loopState" where
  "footerStep options rect d st =
     (let (done, dims) = st
      in if \<not> (IgnoreFooter \<in> options \<or> text_isEmpty (textOf (footer (layoutData d))))
         then (let w = labelWidth rect d dims;
                   d0 = qwtCeil (heightForWidth (textOf (footer (layoutData d))) w);
                   d0 = (if IgnoreFrames \<notin> options
                         then d0 + 2 * textFrameWidth (footer (layoutData d)) else d0)
               in if slt (dimFooter dims) d0 then (False, dims\<lparr>dimFooter := d0\<rparr>)
                  else (done, dims))
         else (done, dims))"

definition axisLength :: "Options \<Rightarrow> QRectF \<Rightarrow> PrivateData \<Rightarrow> int \<Rightarrow> Dims \<Rightarrow> real" where
  \<comment> \<open>the length left for the backbone of an axis\<close>
  "axisLength options rect d axis dims =
     (let scaleData = scale (layoutData d) axis
      in if axis = xTop \<or> axis = xBottom
         then (let length = width rect - toDouble (dimAxis dims yLeft)
                              - toDouble (dimAxis dims yRight);
                   length = length - toDouble (start scaleData + end' scaleData);
                   length = (if slt 0 (dimAxis dims yRight) then length - 1 else length);
                   length = length + toDouble (qMin (dimAxis dims yLeft)
                              (start scaleData - backboneOffsetE options d yLeft))
               in length + toDouble (qMin (dimAxis dims yRight)
                             (end' scaleData - backboneOffsetE options d yRight)))
         else (let length = height rect - toDouble (dimAxis dims xTop)
                              - toDouble (dimAxis dims xBottom);
                   length = length - toDouble (start scaleData + end' scaleData);
                   length = length - 1;
                   length = (if \<not> slt 0 (dimAxis dims xBottom) then length - 1 else length);
                   length = (if \<not> slt 0 (dimAxis dims xTop) then length - 1 else length);
                   length = (if slt 0 (dimAxis dims xBottom)
                             then length + min (tickOffset (scale (layoutData d) xBottom))
                                    (toDouble (start scaleData - backboneOffsetE options d xBottom))
                             else length);
                   length = (if slt 0 (dimAxis dims xTop)
                             then length + min (tickOffset (scale (layoutData d) xTop))
                                    (toDouble (end' scaleData - backboneOffsetE options d xTop))
                             else length)
               in if slt 0 (dimTitle dims)
                  then length - unsignedToDouble (dimTitle dims + spacing d)
                  else length))"

definition axisStep ::
  "Options \<Rightarrow> QRectF \<Rightarrow> PrivateData \<Rightarrow> int \<Rightarrow> loopState \<Rightarrow> loopState" where
  \<comment> \<open>the body of the loop over the axes, inside the \<^verbatim>\<open>while\<close> loop\<close>
  "axisStep options rect d axis st =
     (let (done, dims) = st;
          scaleData = scale (layoutData d) axis
      in if isEnabled scaleData
         then (let length = axisLength options rect d axis dims;
                   d0 = dimWithoutTitle scaleData;
                   d0 = (if \<not> scale_titleIsEmpty (scaleWidget scaleData)
                         then d0 + scale_titleHeightForWidth (scaleWidget scaleData)
                                     (qwtFloor length)
                         else d0)
               in if slt (dimAxis dims axis) d0
                  then (False, dims\<lparr>dimAxis := (dimAxis dims)(axis := d0)\<rparr>)
                  else (done, dims))
         else (done, dims))"

definition expandStep :: "Options \<Rightarrow> QRectF \<Rightarrow> PrivateData \<Rightarrow> Dims \<Rightarrow> loopState" where
  \<comment> \<open>one round of the \<^verbatim>\<open>while\<close> loop, which starts with \<^verbatim>\<open>done = true\<close>\<close>
  "expandStep options rect d dims =
     fold (axisStep options rect d) axes
       (footerStep options rect d (titleStep options rect d (True, dims)))"

definition dimsMeasure :: "Dims \<Rightarrow> nat" where
  \<comment> \<open>how far the six \<^verbatim>\<open>int\<close> accumulators are from the largest \<^verbatim>\<open>int\<close>\<close>
  "dimsMeasure dims =
     nat (2147483647 - sint (dimTitle dims)) + nat (2147483647 - sint (dimFooter dims))
     + (\<Sum>a \<leftarrow> axes. nat (2147483647 - sint (dimAxis dims a)))"

definition progress :: "loopState \<Rightarrow> loopState \<Rightarrow> bool" where
  \<comment> \<open>a step either changes nothing or clears \<^verbatim>\<open>done\<close> and raises an accumulator\<close>
  "progress st st' \<longleftrightarrow> st' = st \<or> (\<not> fst st' \<and> dimsMeasure (snd st') < dimsMeasure (snd st))"

text \<open>
  The loop ends: \<^verbatim>\<open>done\<close> is cleared only where an accumulator, an \<^verbatim>\<open>int\<close>, is raised.
\<close>

lemma raise_measure:
  fixes x y :: cint
  assumes "slt x y"
  shows "nat (2147483647 - sint y) < nat (2147483647 - sint x)"
proof -
  have "sint y \<le> 2147483647" using sint_lt [of y] by simp
  then show ?thesis using assms by (simp add: slt_def)
qed

lemma progress_refl: "progress st st"
  by (simp add: progress_def)

lemma progress_trans: "progress a b \<Longrightarrow> progress b c \<Longrightarrow> progress a c"
  by (auto simp: progress_def)

lemma titleStep_progress: "progress st (titleStep options rect d st)"
  by (cases st) (auto simp: titleStep_def progress_def Let_def dimsMeasure_def
      dest: raise_measure)

lemma footerStep_progress: "progress st (footerStep options rect d st)"
  by (cases st) (auto simp: footerStep_def progress_def Let_def dimsMeasure_def
      dest: raise_measure)

lemma axis_update_measure:
  assumes "a \<in> set axes" and "slt (f a) v"
  shows "(\<Sum>b \<leftarrow> axes. nat (2147483647 - sint ((f(a := v)) b)))
     < (\<Sum>b \<leftarrow> axes. nat (2147483647 - sint (f b)))"
  using assms raise_measure [OF assms(2)] by (auto simp: axes_def)

lemma axisStep_progress:
  assumes "a \<in> set axes"
  shows "progress st (axisStep options rect d a st)"
proof (cases st)
  case (Pair dn dims)
  show ?thesis
    using axis_update_measure [OF assms, of "dimAxis dims"]
    by (auto simp: Pair axisStep_def progress_def Let_def dimsMeasure_def)
qed

lemma fold_axisStep_progress:
  "set as \<subseteq> set axes \<Longrightarrow> progress st (fold (axisStep options rect d) as st)"
proof (induction as arbitrary: st)
  case Nil
  show ?case by (simp add: progress_refl)
next
  case (Cons a as)
  then show ?case
    using progress_trans [OF axisStep_progress [of a st options rect d]] by simp
qed

lemma expandStep_progress: "progress (True, dims) (expandStep options rect d dims)"
  unfolding expandStep_def
  by (rule progress_trans [OF progress_trans [OF titleStep_progress footerStep_progress]
        fold_axisStep_progress]) simp

lemma expandStep_decreases:
  "\<not> fst (expandStep options rect d dims) \<Longrightarrow>
   dimsMeasure (snd (expandStep options rect d dims)) < dimsMeasure dims"
  using expandStep_progress [of dims options rect d] by (auto simp: progress_def)

lemma expandStep_done:
  "fst (expandStep options rect d dims) \<Longrightarrow> snd (expandStep options rect d dims) = dims"
  using expandStep_progress [of dims options rect d] by (auto simp: progress_def)

function expandLoop :: "Options \<Rightarrow> QRectF \<Rightarrow> PrivateData \<Rightarrow> Dims \<Rightarrow> Dims" where
  "expandLoop options rect d dims =
     (if fst (expandStep options rect d dims) then snd (expandStep options rect d dims)
      else expandLoop options rect d (snd (expandStep options rect d dims)))"
  by pat_completeness auto
termination
  by (relation "measure (\<lambda>(options, rect, d, dims). dimsMeasure dims)")
    (simp_all add: expandStep_decreases)

declare expandLoop.simps [simp del]

definition dimsZero :: Dims where
  \<comment> \<open>the accumulators start at 0\<close>
  "dimsZero = \<lparr>dimTitle = 0, dimFooter = 0, dimAxis = (\<lambda>_. 0)\<rparr>"

definition expandLineBreaks :: "Options \<Rightarrow> QRectF \<Rightarrow> PrivateData \<Rightarrow> Dims" where
  "expandLineBreaks options rect d = expandLoop options rect d dimsZero"

definition dimsLe :: "Dims \<Rightarrow> Dims \<Rightarrow> bool" where
  \<comment> \<open>no accumulator of \<open>b\<close> is below that of \<open>a\<close>\<close>
  "dimsLe a b \<longleftrightarrow>
     sint (dimTitle a) \<le> sint (dimTitle b) \<and> sint (dimFooter a) \<le> sint (dimFooter b)
     \<and> (\<forall>x. sint (dimAxis a x) \<le> sint (dimAxis b x))"

definition rounds :: "Options \<Rightarrow> QRectF \<Rightarrow> PrivateData \<Rightarrow> Dims \<Rightarrow> nat \<Rightarrow> Dims" where
  \<comment> \<open>the accumulators after \<open>n\<close> rounds of the loop\<close>
  "rounds options rect d dims n = ((\<lambda>x. snd (expandStep options rect d x)) ^^ n) dims"

definition titlePlot :: QwtPlot where
  \<comment> \<open>a plot with a title that is 500 high at every width\<close>
  "titlePlot = \<lparr>plot_legend = None,
     plot_titleLabel = Some \<lparr>label_text = \<lparr>text_isEmpty = False,
         text_paintUsingTextFont = False, text_font = [], text_metrics = (\<lambda>_ _. 500)\<rparr>,
       label_font = [], label_frameWidth = 0, label_heightForWidth = (\<lambda>_. 500)\<rparr>,
     plot_footerLabel = None, plot_axisEnabled = (\<lambda>_. False),
     plot_axisWidget = (\<lambda>_. zeroScaleWidget),
     canvas_contentsMargins = \<lparr>m_left = 0, m_top = 0, m_right = 0, m_bottom = 0\<rparr>,
     canvas_minimumSize = \<lparr>wd = 0, ht = 0\<rparr>\<rparr>"

definition titleLayout :: PrivateData where
  "titleLayout =
     defaultLayout\<lparr>layoutData := init titlePlot (setRect 0 0 100 10) (layoutData defaultLayout)\<rparr>"

subsection \<open>Qt's integer rectangles and regions\<close>

text \<open>
  \<^verbatim>\<open>activate\<close> takes the legend out of the rectangle with
  \<^verbatim>\<open>QRegion( rect.toRect() ).subtracted( legendRect.toRect() ).boundingRect()\<close>.
  A \<^verbatim>\<open>QRect\<close> holds the coordinates of its first and last column and row; it is empty when
  the last lies before the first. The coordinates are integers here: values outside the
  range of \<^verbatim>\<open>int\<close>, where the conversion from \<^verbatim>\<open>double\<close> is undefined, are not modelled.
\<close>

record QRect =
  x1 :: int
  y1 :: int
  x2 :: int
  y2 :: int

definition QRect_null :: QRect where
  \<comment> \<open>\<^verbatim>\<open>QRect()\<close>\<close>
  "QRect_null = \<lparr>x1 = 0, y1 = 0, x2 = - 1, y2 = - 1\<rparr>"

definition QRect_isEmpty :: "QRect \<Rightarrow> bool" where
  "QRect_isEmpty r \<longleftrightarrow> x2 r < x1 r \<or> y2 r < y1 r"

definition qRound :: "real \<Rightarrow> int" where
  \<comment> \<open>rounding to the nearest integer\<close>
  "qRound v = \<lfloor>v + 1 / 2\<rfloor>"

definition toRect :: "QRectF \<Rightarrow> QRect" where
  \<comment> \<open>\<^verbatim>\<open>QRectF::toRect\<close>: the corners rounded\<close>
  "toRect r = \<lparr>x1 = qRound (xp r), y1 = qRound (yp r),
     x2 = qRound (xp r + w r) - 1, y2 = qRound (yp r + h r) - 1\<rparr>"

definition toRectF :: "QRect \<Rightarrow> QRectF" where
  \<comment> \<open>the conversion of a \<^verbatim>\<open>QRect\<close> to a \<^verbatim>\<open>QRectF\<close>\<close>
  "toRectF r = \<lparr>xp = of_int (x1 r), yp = of_int (y1 r),
     w = of_int (x2 r - x1 r + 1), h = of_int (y2 r - y1 r + 1)\<rparr>"

definition pixels :: "QRect \<Rightarrow> (int \<times> int) set" where
  \<comment> \<open>the points of the region \<^verbatim>\<open>QRegion( r )\<close>\<close>
  "pixels r = {(x, y). x1 r \<le> x \<and> x \<le> x2 r \<and> y1 r \<le> y \<and> y \<le> y2 r}"

definition subtractedBoundingRect :: "QRect \<Rightarrow> QRect \<Rightarrow> QRect" where
  \<comment> \<open>\<^verbatim>\<open>QRegion( a ).subtracted( b ).boundingRect()\<close>: the smallest rectangle around the
      points of \<open>a\<close> that are not in \<open>b\<close>, the null rectangle when there is none. Only
      a part of \<open>b\<close> that spans \<open>a\<close> from side to side and touches an edge takes
      something off the bounding rectangle.\<close>
  "subtractedBoundingRect a b =
     (if QRect_isEmpty a then QRect_null
      else (let ix1 = max (x1 a) (x1 b); ix2 = min (x2 a) (x2 b);
                iy1 = max (y1 a) (y1 b); iy2 = min (y2 a) (y2 b)
            in if QRect_isEmpty b \<or> ix2 < ix1 \<or> iy2 < iy1 then a
               else (let fullH = (iy1 = y1 a \<and> iy2 = y2 a);
                         fullW = (ix1 = x1 a \<and> ix2 = x2 a)
                     in if fullH \<and> fullW then QRect_null
                        else if fullH
                        then a\<lparr>x1 := (if ix1 = x1 a then ix2 + 1 else x1 a),
                               x2 := (if ix2 = x2 a then ix1 - 1 else x2 a)\<rparr>
                        else if fullW
                        then a\<lparr>y1 := (if iy1 = y1 a then iy2 + 1 else y1 a),
                               y2 := (if iy2 = y2 a then iy1 - 1 else y2 a)\<rparr>
                        else a)))"

subsection \<open>activate\<close>

type_synonym layoutState = "PrivateData \<times> QRectF"

definition placeLegend :: "QwtPlot \<Rightarrow> Options \<Rightarrow> layoutState \<Rightarrow> layoutState" where
  \<comment> \<open>the legend and what is left of the rectangle\<close>
  "placeLegend plot options st =
     (let (d, rect) = st
      in if IgnoreLegend \<notin> options
            \<and> (case plot_legend plot of None \<Rightarrow> False | Some l \<Rightarrow> \<not> legend_isEmpty l)
         then (let d = d\<lparr>legendRect := layoutLegend options rect d\<rparr>;
                   rect = toRectF (subtractedBoundingRect (toRect rect) (toRect (legendRect d)));
                   rect =
                     (if legendPos d = LeftLegend
                      then setLeft (left rect + unsignedToDouble (spacing d)) rect
                      else if legendPos d = RightLegend
                      then setRight (right rect - unsignedToDouble (spacing d)) rect
                      else if legendPos d = TopLegend
                      then setTop (top' rect + unsignedToDouble (spacing d)) rect
                      else if legendPos d = BottomLegend
                      then setBottom (bottom rect - unsignedToDouble (spacing d)) rect
                      else rect)
               in (d, rect))
         else (d, rect))"

definition placeTitle :: "Dims \<Rightarrow> layoutState \<Rightarrow> layoutState" where
  "placeTitle dims st =
     (let (d, rect) = st
      in if slt 0 (dimTitle dims)
         then (let d = d\<lparr>titleRect := setRect (left rect) (top' rect) (width rect)
                                       (toDouble (dimTitle dims))\<rparr>;
                   rect = setTop (bottom (titleRect d) + unsignedToDouble (spacing d)) rect;
                   d = (if isEnabled (scale (layoutData d) yLeft)
                           \<noteq> isEnabled (scale (layoutData d) yRight)
                        then d\<lparr>titleRect :=
                               setWidth (width rect - toDouble (dimAxis dims yLeft)
                                           - toDouble (dimAxis dims yRight))
                                 (setX (left rect + toDouble (dimAxis dims yLeft)) (titleRect d))\<rparr>
                        else d)
               in (d, rect))
         else (d, rect))"

definition placeFooter :: "Dims \<Rightarrow> layoutState \<Rightarrow> layoutState" where
  "placeFooter dims st =
     (let (d, rect) = st
      in if slt 0 (dimFooter dims)
         then (let d = d\<lparr>footerRect := setRect (left rect)
                                        (bottom rect - toDouble (dimFooter dims)) (width rect)
                                        (toDouble (dimFooter dims))\<rparr>;
                   rect = setBottom (top' (footerRect d) - unsignedToDouble (spacing d)) rect;
                   d = (if isEnabled (scale (layoutData d) yLeft)
                           \<noteq> isEnabled (scale (layoutData d) yRight)
                        then d\<lparr>footerRect :=
                               setWidth (width rect - toDouble (dimAxis dims yLeft)
                                           - toDouble (dimAxis dims yRight))
                                 (setX (left rect + toDouble (dimAxis dims yLeft)) (footerRect d))\<rparr>
                        else d)
               in (d, rect))
         else (d, rect))"

definition placeCanvas :: "Dims \<Rightarrow> QRectF \<Rightarrow> QRectF" where
  \<comment> \<open>the canvas rectangle before the alignment\<close>
  "placeCanvas dims rect =
     setRect (xp rect + toDouble (dimAxis dims yLeft)) (yp rect + toDouble (dimAxis dims xTop))
       (width rect - toDouble (dimAxis dims yRight) - toDouble (dimAxis dims yLeft))
       (height rect - toDouble (dimAxis dims xBottom) - toDouble (dimAxis dims xTop))"

definition placeScale :: "Dims \<Rightarrow> int \<Rightarrow> PrivateData \<Rightarrow> PrivateData" where
  \<comment> \<open>the rectangle of one axis, beside the canvas\<close>
  "placeScale dims axis d =
     (if dimAxis dims axis \<noteq> 0
      then (let dim = toDouble (dimAxis dims axis);
                scaleR = canvasRect d;
                scaleR =
                  (if axis = yLeft then setWidth dim (setX (left (canvasRect d) - dim) scaleR)
                   else if axis = yRight then setWidth dim (setX (right (canvasRect d)) scaleR)
                   else if axis = xBottom then setHeight dim (setY (bottom (canvasRect d)) scaleR)
                   else if axis = xTop then setHeight dim (setY (top' (canvasRect d) - dim) scaleR)
                   else scaleR)
            in d\<lparr>scaleRect := (scaleRect d)(axis := normalized scaleR)\<rparr>)
      else d)"

definition prepare :: "QwtPlot \<Rightarrow> QRectF \<Rightarrow> PrivateData \<Rightarrow> PrivateData" where
  \<comment> \<open>the start of \<^verbatim>\<open>activate\<close>: \<^verbatim>\<open>invalidate()\<close> and \<^verbatim>\<open>layoutData.init( plot, rect )\<close>\<close>
  "prepare plot plotRect d =
     (let d = invalidate d in d\<lparr>layoutData := init plot plotRect (layoutData d)\<rparr>)"

definition distribute :: "QwtPlot \<Rightarrow> QRectF \<Rightarrow> Options \<Rightarrow> PrivateData \<Rightarrow> PrivateData" where
  \<comment> \<open>the rest of \<^verbatim>\<open>activate\<close>\<close>
  "distribute plot plotRect options d =
     (let (d, rect) = placeLegend plot options (d, plotRect);
          dims = expandLineBreaks options rect d;
          (d, rect) = placeTitle dims (d, rect);
          (d, rect) = placeFooter dims (d, rect);
          d = d\<lparr>canvasRect := placeCanvas dims rect\<rparr>;
          d = fold (placeScale dims) axes d;
          (canvasR, sr) = alignScales options (canvasRect d, scaleRect d) d;
          d = d\<lparr>canvasRect := canvasR, scaleRect := sr\<rparr>
      in if \<not> isEmpty (legendRect d)
         then d\<lparr>legendRect := alignLegend (canvasRect d) (legendRect d) d\<rparr>
         else d)"

definition activate :: "QwtPlot \<Rightarrow> QRectF \<Rightarrow> Options \<Rightarrow> PrivateData \<Rightarrow> PrivateData" where
  "activate plot plotRect options d =
     distribute plot plotRect options (prepare plot plotRect d)"

definition interiorsMeet :: "QRectF \<Rightarrow> QRectF \<Rightarrow> bool" where
  \<comment> \<open>the two rectangles overlap in area: the open intervals between their left and
      right edges meet, and so do those between their top and bottom edges\<close>
  "interiorsMeet r s \<longleftrightarrow>
     max (left r) (left s) < min (right r) (right s)
     \<and> max (top' r) (top' s) < min (bottom r) (bottom s)"


subsection \<open>Notions for the properties of activate\<close>

definition sameButRects :: "PrivateData \<Rightarrow> PrivateData \<Rightarrow> bool" where
  \<comment> \<open>the two differ at most in the output rectangles\<close>
  "sameButRects d' d \<longleftrightarrow>
     layoutData d' = layoutData d \<and> legendPos d' = legendPos d
     \<and> legendRatio d' = legendRatio d \<and> spacing d' = spacing d
     \<and> canvasMargin d' = canvasMargin d \<and> alignCanvasToScales d' = alignCanvasToScales d
     \<and> (\<forall>a. a \<notin> set axes \<longrightarrow> scaleRect d' a = scaleRect d a)"

definition initScaleEntry :: "QwtPlot \<Rightarrow> int \<Rightarrow> t_scaleData \<Rightarrow> t_scaleData" where
  \<comment> \<open>what \<open>initScale\<close> makes of the entry of one axis\<close>
  "initScaleEntry plot axis s = scale (initScale plot axis (zeroLayoutData\<lparr>scale := (\<lambda>_. s)\<rparr>)) axis"







section \<open>Properties of the configuration store\<close>

lemma validLegendPos_QwtPlotLayout: "validLegendPos (QwtPlotLayout raw)"
  by (simp add: validLegendPos_def QwtPlotLayout_def invalidate_def setAlignCanvasToScales_def
      setCanvasMargin_def setLegendPosition_def axes_def legendPos_defs slt_def)

lemma validLegendPos_setLegendPosition:
  "validLegendPos d \<Longrightarrow> validLegendPos (setLegendPosition pos ratio d)"
  by (auto simp: validLegendPos_def setLegendPosition_def Let_def)

lemma validLegendPos_setLegendRatio:
  "validLegendPos d \<Longrightarrow> validLegendPos (setLegendRatio ratio d)"
  by (simp add: setLegendRatio_def validLegendPos_setLegendPosition)

lemma legendPos_setCanvasMargin [simp]: "legendPos (setCanvasMargin m a d) = legendPos d"
  by (simp add: setCanvasMargin_def axes_def Let_def)

lemma legendPos_setAlignCanvasToScales [simp]:
  "legendPos (setAlignCanvasToScales on d) = legendPos d"
  by (simp add: setAlignCanvasToScales_def axes_def)

lemma legendPos_setAlignCanvasToScale [simp]:
  "legendPos (setAlignCanvasToScale a on d) = legendPos d"
  by (simp add: setAlignCanvasToScale_def)

lemma legendPos_setSpacing [simp]: "legendPos (setSpacing v d) = legendPos d"
  by (simp add: setSpacing_def)

lemma legendPos_invalidate [simp]: "legendPos (invalidate d) = legendPos d"
  by (simp add: invalidate_def axes_def)

text \<open>
  C7. After \<open>setLegendRatio r\<close> on a layout whose legend position is one of the four
  positions (every constructed layout is such, and the setters keep it so),
  \<open>legendRatio()\<close> returns \<open>r\<close> when \<open>0 < r \<le> 1\<close>, the default of the position
  (0.33 for top and bottom, 0.5 for left and right) when \<open>r \<le> 0\<close>, and 1 when \<open>1 < r\<close>.
\<close>

theorem setLegendRatio_legendRatio:
  assumes "validLegendPos d"
  shows "legendRatioOf (setLegendRatio r d) =
     (if 1 < r then 1
      else if r \<le> 0
      then (if legendPos d = TopLegend \<or> legendPos d = BottomLegend then 0.33 else 0.5)
      else r)"
  using assms
  by (auto simp: legendRatioOf_def setLegendRatio_def legendPosition_def
      setLegendPosition_def validLegendPos_def Let_def legendPos_defs)

theorem setLegendRatio_legendRatio_witness:
  "validLegendPos (defaultLayout)
   \<and> legendRatioOf (setLegendRatio 0.4 (defaultLayout)) = 0.4
   \<and> legendRatioOf (setLegendRatio (- 2) (defaultLayout)) = 0.33
   \<and> legendRatioOf (setLegendRatio 0 (setLegendPosition RightLegend 0.7 (defaultLayout))) = 0.5
   \<and> legendRatioOf (setLegendRatio 3 (defaultLayout)) = 1"
proof -
  let ?d = "defaultLayout"
  let ?e = "setLegendPosition RightLegend 0.7 ?d"
  have v: "validLegendPos ?d"
    unfolding defaultLayout_def by (rule validLegendPos_QwtPlotLayout)
  have ve: "validLegendPos ?e" by (rule validLegendPos_setLegendPosition [OF v])
  have p: "legendPos ?d = BottomLegend"
    by (simp add: defaultLayout_def QwtPlotLayout_def setLegendPosition_def legendPos_defs)
  have pe: "legendPos ?e = RightLegend"
    by (simp add: setLegendPosition_def legendPos_defs)
  show ?thesis
    using v setLegendRatio_legendRatio [OF v, of "0.4"]
      setLegendRatio_legendRatio [OF v, of "- 2"]
      setLegendRatio_legendRatio [OF ve, of 0]
      setLegendRatio_legendRatio [OF v, of 3] p pe
    by (simp add: legendPos_defs)
qed

text \<open>
  C8. For a margin \<open>m < -1\<close>, \<open>setCanvasMargin(m, -1)\<close> makes \<open>canvasMargin(axis)\<close>
  return \<open>-1\<close> for each of the four axes, and \<open>setCanvasMargin(m, a)\<close> for one valid axis
  \<open>a\<close> makes \<open>canvasMargin(a)\<close> return \<open>-1\<close> and leaves the margins stored for the other
  axes as they were.
\<close>

theorem setCanvasMargin_below_minus_one:
  assumes "sint m < - 1"
  shows "(\<forall>axis \<in> {yLeft, yRight, xBottom, xTop}.
            sint (canvasMarginOf (setCanvasMargin m (- 1) d) axis) = - 1)
     \<and> (0 \<le> a \<and> a < axisCnt \<longrightarrow>
            sint (canvasMarginOf (setCanvasMargin m a d) a) = - 1
            \<and> (\<forall>b. b \<noteq> a \<longrightarrow> canvasMargin (setCanvasMargin m a d) b = canvasMargin d b))"
  using assms
  by (simp add: canvasMarginOf_def setCanvasMargin_def slt_def axes_def axis_defs Let_def)

theorem setCanvasMargin_below_minus_one_witness:
  "sint (- 7 :: cint) < - 1
   \<and> sint (canvasMarginOf (setCanvasMargin (- 7) (- 1) (defaultLayout)) xBottom) = - 1
   \<and> sint (canvasMarginOf (setCanvasMargin (- 7) yRight (defaultLayout)) yRight) = - 1
   \<and> canvasMargin (setCanvasMargin (- 7) yRight (defaultLayout)) xTop
       = canvasMargin (defaultLayout) xTop"
proof -
  have m: "sint (- 7 :: cint) < - 1" by simp
  show ?thesis
    using m setCanvasMargin_below_minus_one [OF m, of defaultLayout yRight]
    by (simp add: axis_defs)
qed

text \<open>
  C9. For an axis index outside \<open>0 .. 3\<close>, \<open>canvasMargin\<close> returns 0,
  \<open>alignCanvasToScale\<close> returns false, \<open>scaleRect\<close> returns the null rectangle, and
  \<open>setCanvasMargin\<close> (for an index other than the apply-to-all value \<open>-1\<close>),
  \<open>setAlignCanvasToScale\<close> and \<open>setScaleRect\<close> return the private data unchanged.
\<close>

theorem invalid_axis_neutral:
  assumes "axis < 0 \<or> 4 \<le> axis"
  shows "canvasMarginOf d axis = 0
     \<and> alignCanvasToScale d axis = False
     \<and> scaleRectOf d axis = QRectF_null
     \<and> (axis \<noteq> - 1 \<longrightarrow> setCanvasMargin m axis d = d)
     \<and> setAlignCanvasToScale axis on d = d
     \<and> setScaleRect axis rect d = d"
  using assms
  by (auto simp: canvasMarginOf_def alignCanvasToScale_def scaleRectOf_def
      setCanvasMargin_def setAlignCanvasToScale_def setScaleRect_def axisCnt_def)

theorem invalid_axis_neutral_witness:
  "((4::int) < 0 \<or> (4::int) \<le> 4)
   \<and> canvasMarginOf defaultLayout 4 = 0
   \<and> alignCanvasToScale (setAlignCanvasToScales True defaultLayout) (- 3) = False
   \<and> setCanvasMargin 9 (- 2) defaultLayout = defaultLayout
   \<and> setAlignCanvasToScale 4 True defaultLayout = defaultLayout"
  using invalid_axis_neutral [of 4 defaultLayout 9 True QRectF_null]
    invalid_axis_neutral [of "- 3" "setAlignCanvasToScales True defaultLayout" 9 True QRectF_null]
    invalid_axis_neutral [of "- 2" defaultLayout 9 True QRectF_null]
  by simp

text \<open>
  C10. For a position that is none of the four legend positions,
  \<open>setLegendPosition(pos, ratio)\<close> changes neither the stored position nor the stored
  ratio, whatever the ratio is.
\<close>

theorem setLegendPosition_invalid_pos:
  assumes "pos \<noteq> LeftLegend" "pos \<noteq> RightLegend" "pos \<noteq> TopLegend" "pos \<noteq> BottomLegend"
  shows "legendPos (setLegendPosition pos ratio d) = legendPos d
     \<and> legendRatio (setLegendPosition pos ratio d) = legendRatio d"
  using assms by (simp add: setLegendPosition_def)

theorem setLegendPosition_invalid_pos_witness:
  "(7::int) \<noteq> LeftLegend \<and> (7::int) \<noteq> RightLegend \<and> (7::int) \<noteq> TopLegend
   \<and> (7::int) \<noteq> BottomLegend
   \<and> legendPos (setLegendPosition 7 0.5 (defaultLayout)) = BottomLegend
   \<and> legendRatio (setLegendPosition 7 0.5 (defaultLayout)) = 0.33"
proof -
  have n: "(7::int) \<noteq> LeftLegend" "(7::int) \<noteq> RightLegend" "(7::int) \<noteq> TopLegend"
    "(7::int) \<noteq> BottomLegend"
    by (simp_all add: legendPos_defs)
  have p: "legendPos (defaultLayout) = BottomLegend"
    "legendRatio (defaultLayout) = 0.33"
    by (simp_all add: defaultLayout_def QwtPlotLayout_def setLegendPosition_def legendPos_defs
        invalidate_def setAlignCanvasToScales_def setCanvasMargin_def axes_def slt_def)
  show ?thesis
    using n setLegendPosition_invalid_pos [OF n, of "0.5" "defaultLayout"] p by simp
qed

section \<open>The corner correction of minimumSizeHint\<close>

lemma subW_apply [simp]:
  "sd_w (subW a v sds b) = (if b = a then sd_w (sds a) - v else sd_w (sds b))"
  "sd_h (subW a v sds b) = sd_h (sds b)"
  "minLeft (subW a v sds b) = minLeft (sds b)"
  "minRight (subW a v sds b) = minRight (sds b)"
  "sd_tickOffset (subW a v sds b) = sd_tickOffset (sds b)"
  by (simp_all add: subW_def)

lemma subH_apply [simp]:
  "sd_h (subH a v sds b) = (if b = a then sd_h (sds a) - v else sd_h (sds b))"
  "sd_w (subH a v sds b) = sd_w (sds b)"
  "minLeft (subH a v sds b) = minLeft (sds b)"
  "minRight (subH a v sds b) = minRight (sds b)"
  "sd_tickOffset (subH a v sds b) = sd_tickOffset (sds b)"
  by (simp_all add: subH_def)

lemma shiftLeftStep_eq: "shiftLeftStep cb a sds = subW a (leftShift cb sds a) sds"
  by (auto simp: shiftLeftStep_def leftShift_def qMin_def Let_def subW_def)

lemma shiftRightStep_eq: "shiftRightStep cb a sds = subW a (rightShift cb sds a) sds"
  by (auto simp: shiftRightStep_def rightShift_def qMin_def Let_def subW_def)

lemma shiftBottomStep_eq: "shiftBottomStep cb a sds = subH a (bottomShift cb sds a) sds"
  by (auto simp: shiftBottomStep_def bottomShift_def qMin_def Let_def subH_def)

lemma shiftTopStep_eq: "shiftTopStep cb a sds = subH a (topShift cb sds a) sds"
  by (auto simp: shiftTopStep_def topShift_def qMin_def Let_def subH_def)

lemma subW_zero [simp]: "subW a 0 sds = sds"
  by (simp add: subW_def)

lemma subH_zero [simp]: "subH a 0 sds = sds"
  by (simp add: subH_def)

lemma horizontal_not_vertical:
  "a = xBottom \<or> a = xTop \<Longrightarrow> a \<noteq> yLeft \<and> a \<noteq> yRight"
  by (auto simp: axis_defs)

lemma shift_subW:
  "b \<noteq> yLeft \<Longrightarrow> leftShift cb (subW b v s) a = leftShift cb s a"
  "b \<noteq> yRight \<Longrightarrow> rightShift cb (subW b v s) a = rightShift cb s a"
  by (simp_all add: leftShift_def rightShift_def)

lemma shift_subH:
  "b \<noteq> xBottom \<Longrightarrow> bottomShift cb (subH b v s) a = bottomShift cb s a"
  "b \<noteq> xTop \<Longrightarrow> topShift cb (subH b v s) a = topShift cb s a"
  by (simp_all add: bottomShift_def topShift_def)

lemma correctAxis_horizontal:
  assumes "a = xBottom \<or> a = xTop"
  shows "correctAxis cb a sds =
     (if sd_w (sds a) = 0 then sds
      else subW a (rightShift cb sds a) (subW a (leftShift cb sds a) sds))"
proof -
  have n: "a \<noteq> yLeft" "a \<noteq> yRight" using horizontal_not_vertical [OF assms] by simp_all
  have r: "rightShift cb (subW a v sds) a = rightShift cb sds a" for v
    using n by (simp add: rightShift_def)
  show ?thesis
    using assms n by (simp add: correctAxis_def shiftLeftStep_eq shiftRightStep_eq r)
qed

lemma correctAxis_vertical:
  assumes "a = yLeft \<or> a = yRight"
  shows "correctAxis cb a sds =
     (if sd_h (sds a) = 0 then sds
      else subH a (topShift cb sds a) (subH a (bottomShift cb sds a) sds))"
proof -
  have n: "a \<noteq> xBottom" "a \<noteq> xTop" using assms by (auto simp: axis_defs)
  have r: "topShift cb (subH a v sds) a = topShift cb sds a" for v
    using n by (simp add: topShift_def)
  show ?thesis
    using assms n by (simp add: correctAxis_def shiftBottomStep_eq shiftTopStep_eq r)
qed

lemma cornerCorrection_unfold:
  "cornerCorrection cb sds =
     correctAxis cb xTop (correctAxis cb xBottom (correctAxis cb yRight (correctAxis cb yLeft sds)))"
  by (simp add: cornerCorrection_def axes_def axis_defs)

lemma vertical_pass_fields:
  fixes cb sds
  defines "s \<equiv> correctAxis cb yRight (correctAxis cb yLeft sds)"
  shows "sd_w (s b) = sd_w (sds b)" "minLeft (s b) = minLeft (sds b)"
    "minRight (s b) = minRight (sds b)" "sd_tickOffset (s b) = sd_tickOffset (sds b)"
    "b \<noteq> yLeft \<Longrightarrow> b \<noteq> yRight \<Longrightarrow> sd_h (s b) = sd_h (sds b)"
  unfolding s_def by (simp_all add: correctAxis_vertical)

lemma vertical_pass_h:
  fixes cb sds
  defines "s \<equiv> correctAxis cb yRight (correctAxis cb yLeft sds)"
  assumes "a = yLeft \<or> a = yRight"
  shows "sd_h (s a) = (if sd_h (sds a) = 0 then 0
      else sd_h (sds a) - bottomShift cb sds a - topShift cb sds a)"
proof -
  have c: "yLeft \<noteq> xBottom" "yLeft \<noteq> xTop" "yLeft \<noteq> yRight"
    by (simp_all add: axis_defs)
  show ?thesis
    using assms(2) c unfolding s_def
    by (auto simp: correctAxis_vertical shift_subH)
qed

lemma horizontal_pass_w:
  assumes "a = xBottom \<or> a = xTop"
  shows "sd_w (correctAxis cb xTop (correctAxis cb xBottom s) a) =
     (if sd_w (s a) = 0 then 0 else sd_w (s a) - leftShift cb s a - rightShift cb s a)"
proof -
  have c: "xBottom \<noteq> yLeft" "xBottom \<noteq> yRight" "xBottom \<noteq> xTop"
    by (simp_all add: axis_defs)
  show ?thesis
    using assms c by (auto simp: correctAxis_horizontal shift_subW)
qed

lemma horizontal_pass_h:
  "sd_h (correctAxis cb xTop (correctAxis cb xBottom s) b) = sd_h (s b)"
  by (simp add: correctAxis_horizontal)

text \<open>
  C1, as the code has it. For a horizontal axis (\<open>xBottom\<close>, \<open>xTop\<close>) of nonzero minimum
  width, the width is reduced, for the left and for the right side, by the smaller of the
  width of the vertical axis on that side and the excess of the axis's border distance
  over the canvas border of that side (nothing when there is no excess or the
  vertical axis has width 0). For a vertical axis (\<open>yLeft\<close>, \<open>yRight\<close>) of nonzero minimum
  height the height is reduced likewise against the bottom and the top axis, but the
  bound is the tick offset of the horizontal axis, not its height. The top
  correction is stated where its guard, which reads the other border distance, agrees
  with the guard on the distance that is subtracted.
\<close>

theorem cornerCorrection_shifts:
  "(\<forall>a \<in> {xBottom, xTop}. sd_w (sds a) \<noteq> 0 \<longrightarrow>
      sd_w (cornerCorrection cb sds a) = sd_w (sds a)
        - (if sd_w (sds yLeft) = 0 then 0
           else cornerShift (sd_w (sds yLeft)) (minLeft (sds a)) (cb yLeft))
        - (if sd_w (sds yRight) = 0 then 0
           else cornerShift (sd_w (sds yRight)) (minRight (sds a)) (cb yRight)))
   \<and> (\<forall>a \<in> {yLeft, yRight}.
        sd_h (sds a) \<noteq> 0 \<and> (slt (cb xTop) (minLeft (sds a)) \<longleftrightarrow> slt (cb xTop) (minRight (sds a))) \<longrightarrow>
        sd_h (cornerCorrection cb sds a) = sd_h (sds a)
          - (if sd_h (sds xBottom) = 0 then 0
             else cornerShift (sd_tickOffset (sds xBottom)) (minLeft (sds a)) (cb xBottom))
          - (if sd_h (sds xTop) = 0 then 0
             else cornerShift (sd_tickOffset (sds xTop)) (minRight (sds a)) (cb xTop)))"
proof -
  let ?s = "correctAxis cb yRight (correctAxis cb yLeft sds)"
  have w: "sd_w (cornerCorrection cb sds a) =
      (if sd_w (sds a) = 0 then 0 else sd_w (sds a) - leftShift cb sds a - rightShift cb sds a)"
    if "a = xBottom \<or> a = xTop" for a
  proof -
    have "leftShift cb ?s a = leftShift cb sds a" "rightShift cb ?s a = rightShift cb sds a"
      by (simp_all add: leftShift_def rightShift_def vertical_pass_fields)
    then show ?thesis
      using horizontal_pass_w [OF that, of cb ?s]
      by (simp add: cornerCorrection_unfold vertical_pass_fields)
  qed
  have h: "sd_h (cornerCorrection cb sds a) =
      (if sd_h (sds a) = 0 then 0 else sd_h (sds a) - bottomShift cb sds a - topShift cb sds a)"
    if "a = yLeft \<or> a = yRight" for a
    using vertical_pass_h [OF that, of cb sds]
    by (simp add: cornerCorrection_unfold horizontal_pass_h)
  have l: "leftShift cb sds a = (if sd_w (sds yLeft) = 0 then 0
           else cornerShift (sd_w (sds yLeft)) (minLeft (sds a)) (cb yLeft))" for a
    by (simp add: leftShift_def cornerShift_def)
  have r: "rightShift cb sds a = (if sd_w (sds yRight) = 0 then 0
           else cornerShift (sd_w (sds yRight)) (minRight (sds a)) (cb yRight))" for a
    by (simp add: rightShift_def cornerShift_def)
  have b: "bottomShift cb sds a = (if sd_h (sds xBottom) = 0 then 0
             else cornerShift (sd_tickOffset (sds xBottom)) (minLeft (sds a)) (cb xBottom))" for a
    by (simp add: bottomShift_def cornerShift_def)
  have t: "topShift cb sds a = (if sd_h (sds xTop) = 0 then 0
             else cornerShift (sd_tickOffset (sds xTop)) (minRight (sds a)) (cb xTop))"
    if "slt (cb xTop) (minLeft (sds a)) \<longleftrightarrow> slt (cb xTop) (minRight (sds a))" for a
    using that by (simp add: topShift_def cornerShift_def)
  show ?thesis
  proof (intro conjI ballI impI)
    fix a assume "a \<in> {xBottom, xTop}" "sd_w (sds a) \<noteq> 0"
    then show "sd_w (cornerCorrection cb sds a) = sd_w (sds a)
        - (if sd_w (sds yLeft) = 0 then 0
           else cornerShift (sd_w (sds yLeft)) (minLeft (sds a)) (cb yLeft))
        - (if sd_w (sds yRight) = 0 then 0
           else cornerShift (sd_w (sds yRight)) (minRight (sds a)) (cb yRight))"
      using w [of a] l [of a] r [of a] by auto
  next
    fix a assume "a \<in> {yLeft, yRight}"
      and "sd_h (sds a) \<noteq> 0 \<and> (slt (cb xTop) (minLeft (sds a)) \<longleftrightarrow> slt (cb xTop) (minRight (sds a)))"
    then show "sd_h (cornerCorrection cb sds a) = sd_h (sds a)
          - (if sd_h (sds xBottom) = 0 then 0
             else cornerShift (sd_tickOffset (sds xBottom)) (minLeft (sds a)) (cb xBottom))
          - (if sd_h (sds xTop) = 0 then 0
             else cornerShift (sd_tickOffset (sds xTop)) (minRight (sds a)) (cb xTop))"
      using h [of a] b [of a] t [of a] by auto
  qed
qed

lemma canvasMargin_defaultLayout:
  "canvasMargin defaultLayout a = (if 0 \<le> a \<and> a < 4 then 4 else 0)"
  by (simp add: defaultLayout_def QwtPlotLayout_def
      invalidate_def setAlignCanvasToScales_def setCanvasMargin_def setLegendPosition_def
      axes_def legendPos_defs slt_def zeroData_def)

lemma canvasBorderOf_example:
  "canvasBorderOf examplePlot defaultLayout a = (if 0 \<le> a \<and> a < 4 then 5 else 1)"
  by (simp add: canvasBorderOf_def examplePlot_def canvasMargin_defaultLayout)

lemma readScaleData_example:
  "readScaleData examplePlot yLeft = \<lparr>sd_w = 40, sd_h = 100, minLeft = 20, minRight = 20, sd_tickOffset = 8\<rparr>"
  "readScaleData examplePlot xBottom = \<lparr>sd_w = 100, sd_h = 30, minLeft = 12, minRight = 0, sd_tickOffset = 8\<rparr>"
  "readScaleData examplePlot yRight = ScaleData_null"
  "readScaleData examplePlot xTop = ScaleData_null"
  by (simp_all add: readScaleData_def examplePlot_def exampleScale_def zeroScaleWidget_def
       axis_defs qwtCeil_def Let_def)

theorem cornerCorrection_shifts_witness:
  "sd_w (readScaleData examplePlot xBottom) \<noteq> 0
   \<and> sd_w (cornerCorrection (canvasBorderOf examplePlot defaultLayout)
         (readScaleData examplePlot) xBottom) = 93
   \<and> sd_h (readScaleData examplePlot yLeft) \<noteq> 0
   \<and> sd_h (cornerCorrection (canvasBorderOf examplePlot defaultLayout)
         (readScaleData examplePlot) yLeft) = 92"
proof -
  let ?cb = "canvasBorderOf examplePlot defaultLayout"
  let ?sds = "readScaleData examplePlot"
  have c: "?cb yLeft = 5" "?cb yRight = 5" "?cb xBottom = 5" "?cb xTop = 5"
    by (simp_all add: canvasBorderOf_example axis_defs)
  note t = cornerCorrection_shifts [of ?sds ?cb, THEN conjunct1, THEN bspec, of xBottom]
    cornerCorrection_shifts [of ?sds ?cb, THEN conjunct2, THEN bspec, of yLeft]
  show ?thesis
    using t by (simp add: c readScaleData_example cornerShift_def slt_def qMin_def ScaleData_null_def)
qed

text \<open>
  The claim as stated fails: with a left axis of minimum height 100 and border distances
  20, a bottom axis of height 30 and tick offset 8, and canvas borders 5, the code
  takes 8 off the height of the left axis, the claim 15.
\<close>

theorem cornerCorrection_claim_counterexample:
  "sd_h (cornerCorrection (canvasBorderOf examplePlot defaultLayout)
      (readScaleData examplePlot) yLeft) = 92
   \<and> claimed_verticalHeight (canvasBorderOf examplePlot defaultLayout)
         (readScaleData examplePlot) yLeft = 85
   \<and> sd_h (cornerCorrection (canvasBorderOf examplePlot defaultLayout)
         (readScaleData examplePlot) yLeft)
       \<noteq> claimed_verticalHeight (canvasBorderOf examplePlot defaultLayout)
           (readScaleData examplePlot) yLeft"
proof -
  let ?cb = "canvasBorderOf examplePlot defaultLayout"
  let ?sds = "readScaleData examplePlot"
  have c: "?cb yLeft = 5" "?cb yRight = 5" "?cb xBottom = 5" "?cb xTop = 5"
    by (simp_all add: canvasBorderOf_example axis_defs)
  have v: "yLeft = yLeft \<or> yLeft = yRight" by simp
  have "sd_h (cornerCorrection ?cb ?sds yLeft) = 92"
    by (simp add: cornerCorrection_unfold horizontal_pass_h vertical_pass_h [OF v]
        bottomShift_def topShift_def c readScaleData_example slt_def qMin_def ScaleData_null_def)
  moreover have "claimed_verticalHeight ?cb ?sds yLeft = 85"
    by (simp add: claimed_verticalHeight_def cornerShift_def c readScaleData_example slt_def
        qMin_def ScaleData_null_def)
  ultimately show ?thesis by simp
qed


section \<open>The ratio cap of layoutLegend\<close>







section \<open>alignScales\<close>

lemma shrinksTo_refl [simp]: "shrinksTo c c"
  by (simp add: shrinksTo_def)











lemma alignLeftStep_frame: "b \<noteq> a \<Longrightarrow> snd (alignLeftStep options d a cs) b = snd cs b"
  by (cases cs) (simp add: alignLeftStep_def Let_def)

lemma alignRightStep_frame: "b \<noteq> a \<Longrightarrow> snd (alignRightStep options d a cs) b = snd cs b"
  by (cases cs) (simp add: alignRightStep_def Let_def)

lemma alignBottomStep_frame: "b \<noteq> a \<Longrightarrow> snd (alignBottomStep options d a cs) b = snd cs b"
  by (cases cs) (simp add: alignBottomStep_def Let_def)

lemma alignTopStep_frame: "b \<noteq> a \<Longrightarrow> snd (alignTopStep options d a cs) b = snd cs b"
  by (cases cs) (simp add: alignTopStep_def Let_def)

lemma alignAxis_frame: "b \<noteq> a \<Longrightarrow> snd (alignAxis options d a cs) b = snd cs b"
  by (simp add: alignAxis_def alignLeftStep_frame alignRightStep_frame
      alignBottomStep_frame alignTopStep_frame)










section \<open>The loop of expandLineBreaks\<close>

lemma dimsLe_refl: "dimsLe a a"
  by (simp add: dimsLe_def)

lemma dimsLe_trans:
  assumes "dimsLe a b" and "dimsLe b c"
  shows "dimsLe a c"
proof -
  have "sint (dimAxis a x) \<le> sint (dimAxis c x)" for x
  proof -
    have "sint (dimAxis a x) \<le> sint (dimAxis b x)" "sint (dimAxis b x) \<le> sint (dimAxis c x)"
      using assms by (simp_all add: dimsLe_def)
    then show ?thesis by (rule order_trans)
  qed
  moreover have "sint (dimTitle a) \<le> sint (dimTitle c)" "sint (dimFooter a) \<le> sint (dimFooter c)"
    using assms by (simp_all add: dimsLe_def)
  ultimately show ?thesis by (simp add: dimsLe_def)
qed

lemma titleStep_mono: "dimsLe (snd st) (snd (titleStep options rect d st))"
  by (cases st) (simp add: titleStep_def Let_def dimsLe_def slt_def)

lemma footerStep_mono: "dimsLe (snd st) (snd (footerStep options rect d st))"
  by (cases st) (simp add: footerStep_def Let_def dimsLe_def slt_def)

lemma axisStep_mono: "dimsLe (snd st) (snd (axisStep options rect d a st))"
  by (cases st) (simp add: axisStep_def Let_def dimsLe_def slt_def)

lemma fold_axisStep_mono: "dimsLe (snd st) (snd (fold (axisStep options rect d) as st))"
proof (induction as arbitrary: st)
  case Nil
  show ?case by (simp add: dimsLe_refl)
next
  case (Cons a as)
  show ?case
    using dimsLe_trans [OF axisStep_mono Cons.IH [of "axisStep options rect d a st"]] by simp
qed

lemma expandStep_mono: "dimsLe dims (snd (expandStep options rect d dims))"
proof -
  let ?t = "titleStep options rect d (True, dims)"
  let ?f = "footerStep options rect d ?t"
  have 1: "dimsLe dims (snd ?t)"
    using titleStep_mono [of "(True, dims)" options rect d] by simp
  have 2: "dimsLe (snd ?t) (snd ?f)" by (rule footerStep_mono)
  have 3: "dimsLe (snd ?f) (snd (fold (axisStep options rect d) axes ?f))"
    by (rule fold_axisStep_mono)
  show ?thesis
    unfolding expandStep_def by (rule dimsLe_trans [OF dimsLe_trans [OF 1 2] 3])
qed

lemma rounds_Suc:
  "rounds options rect d dims (Suc n)
     = rounds options rect d (snd (expandStep options rect d dims)) n"
  by (simp only: rounds_def funpow_Suc_right o_apply)

lemma expandLoop_rounds:
  "\<exists>n \<le> dimsMeasure dims.
      fst (expandStep options rect d (rounds options rect d dims n))
      \<and> (\<forall>k < n. \<not> fst (expandStep options rect d (rounds options rect d dims k)))
      \<and> expandLoop options rect d dims = rounds options rect d dims n"
proof (induction options rect d dims rule: expandLoop.induct)
  case (1 options rect d dims)
  let ?s = "expandStep options rect d dims"
  show ?case
  proof (cases "fst ?s")
    case True
    then have "expandLoop options rect d dims = dims"
      by (subst expandLoop.simps) (simp add: expandStep_done)
    then show ?thesis
      using True by (intro exI [of _ 0]) (simp add: rounds_def)
  next
    case False
    from "1.IH" [OF False] obtain n where n: "n \<le> dimsMeasure (snd ?s)"
      "fst (expandStep options rect d (rounds options rect d (snd ?s) n))"
      "\<forall>k < n. \<not> fst (expandStep options rect d (rounds options rect d (snd ?s) k))"
      "expandLoop options rect d (snd ?s) = rounds options rect d (snd ?s) n"
      by blast
    have b: "Suc n \<le> dimsMeasure dims"
      using n(1) expandStep_decreases [OF False] by simp
    have e: "expandLoop options rect d dims = rounds options rect d dims (Suc n)"
      using False n(4) by (subst expandLoop.simps) (simp add: rounds_Suc)
    have k: "\<not> fst (expandStep options rect d (rounds options rect d dims k))"
      if "k < Suc n" for k
    proof (cases k)
      case 0
      then show ?thesis using False by (simp add: rounds_def)
    next
      case (Suc j)
      then show ?thesis using n(3) that by (simp add: rounds_Suc)
    qed
    show ?thesis
      using b e k n(2) by (intro exI [of _ "Suc n"]) (simp add: rounds_Suc)
  qed
qed

lemma dimsMeasure_dimsZero: "dimsMeasure dimsZero = 6 * 2147483647"
  by (simp add: dimsMeasure_def dimsZero_def axes_def)

text \<open>
  C6, as the code has it. The loop of \<open>expandLineBreaks\<close> ends for every input: there is a
  number \<open>n\<close> of rounds, at most \<open>6 * (2^31 - 1)\<close>, after which the next round sets no
  accumulator and leaves the loop, no earlier round does, and the result is the
  accumulators after these \<open>n\<close> rounds. From round to round none of \<open>dimTitle\<close>,
  \<open>dimFooter\<close> and \<open>dimAxis[axis]\<close> decreases. The loop has no iteration cap: what bounds
  the accumulators is the range of \<^verbatim>\<open>int\<close>, not the rectangle.
\<close>

theorem expandLineBreaks_terminates:
  "(\<exists>n \<le> 6 * 2147483647.
      fst (expandStep options rect d (rounds options rect d dimsZero n))
      \<and> (\<forall>k < n. \<not> fst (expandStep options rect d (rounds options rect d dimsZero k)))
      \<and> expandLineBreaks options rect d = rounds options rect d dimsZero n)
   \<and> (\<forall>k. dimsLe (rounds options rect d dimsZero k) (rounds options rect d dimsZero (Suc k)))"
proof
  show "\<exists>n \<le> 6 * 2147483647.
      fst (expandStep options rect d (rounds options rect d dimsZero n))
      \<and> (\<forall>k < n. \<not> fst (expandStep options rect d (rounds options rect d dimsZero k)))
      \<and> expandLineBreaks options rect d = rounds options rect d dimsZero n"
    using expandLoop_rounds [of dimsZero options rect d]
    by (simp add: dimsMeasure_dimsZero expandLineBreaks_def)
  show "\<forall>k. dimsLe (rounds options rect d dimsZero k) (rounds options rect d dimsZero (Suc k))"
    by (simp add: rounds_def expandStep_mono)
qed

lemma titleLayout_step:
  "expandStep {} (setRect 0 0 100 10) titleLayout dimsZero = (False, dimsZero\<lparr>dimTitle := 500\<rparr>)"
  "expandStep {} (setRect 0 0 100 10) titleLayout (dimsZero\<lparr>dimTitle := 500\<rparr>)
     = (True, dimsZero\<lparr>dimTitle := 500\<rparr>)"
  by (simp_all add: expandStep_def titleStep_def footerStep_def axisStep_def axes_def
      titleLayout_def init_def initLegend_def initText_def initScale_def initCanvas_def
      titlePlot_def Let_def labelWidth_def heightForWidth_def setFont_def qwtCeil_def
      slt_def dimsZero_def QwtText_null_def defaultLayout_def QwtPlotLayout_def
      invalidate_def setAlignCanvasToScales_def setCanvasMargin_def setLegendPosition_def
      zeroData_def zeroLayoutData_def zeroScaleData_def legendPos_defs axis_defs)

lemma titleLayout_result:
  "expandLineBreaks {} (setRect 0 0 100 10) titleLayout = dimsZero\<lparr>dimTitle := 500\<rparr>"
proof -
  have "expandLoop {} (setRect 0 0 100 10) titleLayout (dimsZero\<lparr>dimTitle := 500\<rparr>)
      = dimsZero\<lparr>dimTitle := 500\<rparr>"
    by (subst expandLoop.simps) (simp add: titleLayout_step)
  then have "expandLoop {} (setRect 0 0 100 10) titleLayout dimsZero = dimsZero\<lparr>dimTitle := 500\<rparr>"
    by (subst expandLoop.simps) (simp add: titleLayout_step)
  then show ?thesis
    by (simp add: expandLineBreaks_def)
qed

text \<open>
  The accumulators are not bounded by the input rectangle: a title that is 500 high in a
  rectangle of 100 by 10 gives \<open>dimTitle = 500\<close>.
\<close>

theorem expandLineBreaks_bound_counterexample:
  "dimTitle (expandLineBreaks {} (setRect 0 0 100 10) titleLayout) = 500
   \<and> width (setRect 0 0 100 10) = 100 \<and> height (setRect 0 0 100 10) = 10
   \<and> \<not> toDouble (dimTitle (expandLineBreaks {} (setRect 0 0 100 10) titleLayout))
         \<le> height (setRect 0 0 100 10)
   \<and> \<not> toDouble (dimTitle (expandLineBreaks {} (setRect 0 0 100 10) titleLayout))
         \<le> width (setRect 0 0 100 10)"
  by (simp only: titleLayout_result) (simp add: dimsZero_def rect_defs toDouble_def)

theorem expandLineBreaks_terminates_witness:
  "fst (expandStep {} (setRect 0 0 100 10) titleLayout
          (rounds {} (setRect 0 0 100 10) titleLayout dimsZero 1))
   \<and> \<not> fst (expandStep {} (setRect 0 0 100 10) titleLayout
          (rounds {} (setRect 0 0 100 10) titleLayout dimsZero 0))
   \<and> expandLineBreaks {} (setRect 0 0 100 10) titleLayout
       = rounds {} (setRect 0 0 100 10) titleLayout dimsZero 1
   \<and> dimsLe (rounds {} (setRect 0 0 100 10) titleLayout dimsZero 0)
        (rounds {} (setRect 0 0 100 10) titleLayout dimsZero 1)"
proof -
  have r: "rounds {} (setRect 0 0 100 10) titleLayout dimsZero 0 = dimsZero"
    "rounds {} (setRect 0 0 100 10) titleLayout dimsZero (Suc 0) = dimsZero\<lparr>dimTitle := 500\<rparr>"
    by (simp_all add: rounds_def titleLayout_step)
  have m: "dimsLe (rounds {} (setRect 0 0 100 10) titleLayout dimsZero 0)
        (rounds {} (setRect 0 0 100 10) titleLayout dimsZero (Suc 0))"
    using expandLineBreaks_terminates [of "{}" "setRect 0 0 100 10" titleLayout] by blast
  show ?thesis
    using m by (simp only: r titleLayout_step titleLayout_result One_nat_def) simp
qed

section \<open>activate is idempotent\<close>

lemma sameButRects_refl: "sameButRects d d"
  by (simp add: sameButRects_def)

lemma sameButRects_trans: "sameButRects d'' d' \<Longrightarrow> sameButRects d' d \<Longrightarrow> sameButRects d'' d"
  by (simp add: sameButRects_def)

lemma initScale_eq:
  "initScale plot axis ld = ld\<lparr>scale := (scale ld)(axis := initScaleEntry plot axis (scale ld axis))\<rparr>"
  by (simp add: initScale_def initScaleEntry_def Let_def)

lemma initScaleEntry_idem:
  "initScaleEntry plot axis (initScaleEntry plot axis s) = initScaleEntry plot axis s"
  by (simp add: initScale_def initScaleEntry_def Let_def)

lemma fold_initScale:
  "fold (initScale plot) axes ld =
     ld\<lparr>scale := (\<lambda>a. if a \<in> set axes then initScaleEntry plot a (scale ld a) else scale ld a)\<rparr>"
proof -
  have "(scale ld)(0 := initScaleEntry plot 0 (scale ld 0), 1 := initScaleEntry plot 1 (scale ld 1),
      2 := initScaleEntry plot 2 (scale ld 2), 3 := initScaleEntry plot 3 (scale ld 3))
    = (\<lambda>a. if a \<in> set axes then initScaleEntry plot a (scale ld a) else scale ld a)"
    by (rule ext) (simp add: axes_def)
  then show ?thesis
    by (simp add: axes_def initScale_eq)
qed

lemma initLegend_idem: "initLegend plot rect (initLegend plot rect ld) = initLegend plot rect ld"
  by (simp add: initLegend_def Let_def split: option.split)

lemma initLegend_fields:
  "title (initLegend plot rect ld) = title ld" "footer (initLegend plot rect ld) = footer ld"
  "scale (initLegend plot rect ld) = scale ld"
  "contentsMargins (initLegend plot rect ld) = contentsMargins ld"
  by (simp_all add: initLegend_def Let_def split: option.split)

lemma init_fields:
  "legend (init plot rect ld) = legend (initLegend plot rect ld)"
  "title (init plot rect ld) = initText (plot_titleLabel plot)"
  "footer (init plot rect ld) = initText (plot_footerLabel plot)"
  "scale (init plot rect ld) =
     (\<lambda>a. if a \<in> set axes then initScaleEntry plot a (scale ld a) else scale ld a)"
  "contentsMargins (init plot rect ld) = contentsMargins (initCanvas plot ld)"
  by (simp_all add: init_def Let_def fold_initScale initCanvas_def initLegend_fields cong: if_cong)

lemma legend_initLegend_cong:
  "legend ld' = legend ld \<Longrightarrow> legend (initLegend plot rect ld') = legend (initLegend plot rect ld)"
  by (simp add: initLegend_def Let_def split: option.split)

lemma init_idem: "init plot rect (init plot rect ld) = init plot rect ld"
proof (rule LayoutData.equality)
  show "legend (init plot rect (init plot rect ld)) = legend (init plot rect ld)"
    using legend_initLegend_cong [of "init plot rect ld" "initLegend plot rect ld" plot rect]
    by (simp add: init_fields initLegend_idem)
  show "scale (init plot rect (init plot rect ld)) = scale (init plot rect ld)"
    by (rule ext) (simp add: init_fields initScaleEntry_idem cong: if_cong)
  show "contentsMargins (init plot rect (init plot rect ld)) = contentsMargins (init plot rect ld)"
    by (simp add: init_fields initCanvas_def Let_def)
  show "LayoutData.more (init plot rect (init plot rect ld)) = LayoutData.more (init plot rect ld)"
    by simp
qed (simp_all add: init_fields)


lemma placeLegend_same: "sameButRects (fst (placeLegend plot options (d, rect))) d"
  by (simp add: placeLegend_def sameButRects_def Let_def)

lemma placeTitle_same: "sameButRects (fst (placeTitle dims (d, rect))) d"
  by (simp add: placeTitle_def sameButRects_def Let_def)

lemma placeFooter_same: "sameButRects (fst (placeFooter dims (d, rect))) d"
  by (simp add: placeFooter_def sameButRects_def Let_def)

lemma placeScale_same: "a \<in> set axes \<Longrightarrow> sameButRects (placeScale dims a d) d"
  by (auto simp: placeScale_def sameButRects_def Let_def)

lemma fold_placeScale_same:
  "set as \<subseteq> set axes \<Longrightarrow> sameButRects (fold (placeScale dims) as d) d"
proof (induction as arbitrary: d)
  case Nil
  show ?case by (simp add: sameButRects_refl)
next
  case (Cons a as)
  then show ?case
    using sameButRects_trans [OF Cons.IH [of "placeScale dims a d"] placeScale_same [of a dims d]]
    by simp
qed


lemma fold_alignAxis_frame:
  "b \<notin> set as \<Longrightarrow> snd (fold (alignAxis options d) as cs) b = snd cs b"
  by (induction as arbitrary: cs) (simp_all add: alignAxis_frame)

lemma realignAxis_frame: "b \<noteq> a \<Longrightarrow> realignAxis options d c a sr b = sr b"
  by (simp add: realignAxis_def Let_def)

lemma fold_realignAxis_frame:
  "b \<notin> set as \<Longrightarrow> fold (realignAxis options d c) as sr b = sr b"
  by (induction as arbitrary: sr) (simp_all add: realignAxis_frame)

lemma alignScales_frame:
  "b \<notin> set axes \<Longrightarrow> snd (alignScales options cs d) b = snd cs b"
  by (simp add: alignScales_def split_beta fold_realignAxis_frame fold_alignAxis_frame)

lemma distribute_same: "sameButRects (distribute plot plotRect options d) d"
proof -
  obtain d1 r1 where 1: "placeLegend plot options (d, plotRect) = (d1, r1)"
    by (cases "placeLegend plot options (d, plotRect)")
  let ?dims = "expandLineBreaks options r1 d1"
  obtain d2 r2 where 2: "placeTitle ?dims (d1, r1) = (d2, r2)"
    by (cases "placeTitle ?dims (d1, r1)")
  obtain d3 r3 where 3: "placeFooter ?dims (d2, r2) = (d3, r3)"
    by (cases "placeFooter ?dims (d2, r2)")
  let ?d4 = "fold (placeScale ?dims) axes (d3\<lparr>canvasRect := placeCanvas ?dims r3\<rparr>)"
  obtain c sr where 5: "alignScales options (canvasRect ?d4, scaleRect ?d4) ?d4 = (c, sr)"
    by (cases "alignScales options (canvasRect ?d4, scaleRect ?d4) ?d4")
  let ?d5 = "?d4\<lparr>canvasRect := c, scaleRect := sr\<rparr>"
  have s1: "sameButRects d1 d" using placeLegend_same [of plot options d plotRect] 1 by simp
  have s2: "sameButRects d2 d1" using placeTitle_same [of ?dims d1 r1] 2 by simp
  have s3: "sameButRects d3 d2" using placeFooter_same [of ?dims d2 r2] 3 by simp
  have s4: "sameButRects ?d4 d3"
    using fold_placeScale_same [of axes ?dims "d3\<lparr>canvasRect := placeCanvas ?dims r3\<rparr>"]
    by (simp add: sameButRects_def)
  have "\<forall>a. a \<notin> set axes \<longrightarrow> sr a = scaleRect ?d4 a"
    using alignScales_frame [of _ options "(canvasRect ?d4, scaleRect ?d4)" ?d4] 5 by simp
  then have s5: "sameButRects ?d5 ?d4" by (simp add: sameButRects_def)
  have s: "sameButRects ?d5 d"
    by (rule sameButRects_trans [OF s5 sameButRects_trans [OF s4 sameButRects_trans [OF s3
          sameButRects_trans [OF s2 s1]]]])
  have e: "distribute plot plotRect options d =
      (if \<not> isEmpty (legendRect ?d5)
       then ?d5\<lparr>legendRect := alignLegend (canvasRect ?d5) (legendRect ?d5) ?d5\<rparr> else ?d5)"
    by (simp add: distribute_def 1 2 3 5 Let_def)
  show ?thesis
    unfolding e using s by (simp add: sameButRects_def)
qed

lemma invalidate_cong: "sameButRects d' d \<Longrightarrow> invalidate d' = invalidate d"
proof -
  assume s: "sameButRects d' d"
  have "(scaleRect d')(0 := QRectF_null, 1 := QRectF_null, 2 := QRectF_null, 3 := QRectF_null)
     = (scaleRect d)(0 := QRectF_null, 1 := QRectF_null, 2 := QRectF_null, 3 := QRectF_null)"
    using s by (intro ext) (simp add: sameButRects_def axes_def)
  then show ?thesis
    using s by (intro PrivateData.equality) (simp_all add: invalidate_def axes_def sameButRects_def)
qed

lemma invalidate_prepare: "invalidate (prepare plot plotRect d) = prepare plot plotRect d"
  by (simp add: prepare_def invalidate_def axes_def Let_def)

lemma layoutData_prepare:
  "layoutData (prepare plot plotRect d) = init plot plotRect (layoutData d)"
  by (simp add: prepare_def invalidate_def axes_def Let_def)

lemma prepare_distribute:
  "prepare plot plotRect (distribute plot plotRect options (prepare plot plotRect d))
     = prepare plot plotRect d"
proof -
  let ?p = "prepare plot plotRect d"
  let ?x = "distribute plot plotRect options ?p"
  have s: "sameButRects ?x ?p" by (rule distribute_same)
  have i: "invalidate ?x = ?p"
    using invalidate_cong [OF s] by (simp add: invalidate_prepare)
  have "prepare plot plotRect ?x = ?p\<lparr>layoutData := init plot plotRect (layoutData ?p)\<rparr>"
    by (simp add: prepare_def [of plot plotRect ?x] Let_def i)
  also have "\<dots> = ?p"
    by (simp add: layoutData_prepare init_idem)
  finally show ?thesis .
qed

text \<open>
  C4. A second call of \<open>activate\<close> with the same plot, rectangle and options, on the
  layout the first call left, gives the same private data again: the same \<open>titleRect\<close>,
  \<open>footerRect\<close>, \<open>legendRect\<close>, \<open>canvasRect\<close> and \<open>scaleRect\<close>s. What the first call left
  behind is overwritten by \<open>invalidate\<close> and \<open>init\<close> before it is read.
\<close>

theorem activate_idempotent:
  "activate plot plotRect options (activate plot plotRect options d)
     = activate plot plotRect options d"
  by (simp add: activate_def prepare_distribute)


theorem activate_idempotent_witness:
  "activate legendPlot (setRect 0 0 200 100) {}
      (activate legendPlot (setRect 0 0 200 100) {} defaultLayout)
     = activate legendPlot (setRect 0 0 200 100) {} defaultLayout"
  using activate_idempotent [of legendPlot "setRect 0 0 200 100" "{}" defaultLayout] by simp

section \<open>The canvas and the title, footer and legend\<close>



























lemma interiorsMeet_null [simp]: "\<not> interiorsMeet c QRectF_null"
  by (simp add: interiorsMeet_def QRectF_null_def rect_defs)














lemma qRound_of_int [simp]: "qRound (of_int k) = k"
  by (simp add: qRound_def floor_eq_iff)





















end
